theory Spec2Isabelle
  imports Complex_Main "HOL-Library.List_Lexorder" "HOL-Library.Char_ord"
begin

chapter \<open>The fuel-price dashboard: model\<close>

text \<open>
  A shallow embedding of the price-history pipeline of the dashboard: the paginated
  query client, the selection state, the time-window persistence, the refresh, the
  chart alignment and the analytics of the script (\<^verbatim>\<open>src/unnamed/part_001\<close>, lines
  1-818, the variant with zoom), and \<^verbatim>\<open>computeAdvice\<close> of
  \<^verbatim>\<open>src/web-app/src/App.tsx\<close>.

  JavaScript numbers are IEEE doubles. A finite double is the \<^typ>\<open>real\<close> it denotes:
  comparison, sorting and selection of finite doubles agree with the reals. The sums,
  differences, products, quotients, powers and square roots of the program are rounded by
  the platform and may overflow, so the arithmetic is a parameter of the model
  (\<open>arith\<close> below) and no definition adds or divides reals where the program adds
  or divides doubles. A JSON value \<^verbatim>\<open>number | null\<close> is a \<^typ>\<open>real option\<close>
  (JSON carries neither NaN nor an infinity).

  What the browser provides and the repository does not contain is a parameter of the
  model: the answers of the remote service, \<^verbatim>\<open>Date\<close> parsing and formatting, the
  clock, the local time zone and \<^verbatim>\<open>Intl.DateTimeFormat\<close>. The DOM, the chart widget and
  the fuzzy search are left out.
\<close>

section \<open>Paginated query client\<close>

text \<open>
\<^verbatim>\<open>const PAGE_SIZE = 1000;\<close>
\<close>

definition PAGE_SIZE :: nat where "PAGE_SIZE = 1000"

text \<open>
  What one \<^verbatim>\<open>fetch(url)\<close> followed by \<^verbatim>\<open>response.json()\<close> can give:
  the promise rejects (\<open>Rejected\<close>), or a response with a status and a body. The body
  is not JSON (\<^verbatim>\<open>response.json()\<close> throws), is JSON \<^verbatim>\<open>null\<close> (reading
  \<^verbatim>\<open>data.rows\<close> throws), or is a JSON value whose \<^verbatim>\<open>rows\<close> field is absent
  or falsy (\<open>None\<close>) or an array of rows.
\<close>

datatype 'r body = NotJson | JsonNull | JsonObj "'r list option"

datatype 'r response = Rejected | Response nat "'r body"

text \<open>
  The exceptions of the script. \<open>HTTPError status offset\<close> is the
  \<^verbatim>\<open>Error(`HTTP error! status: ... for URL: ...`)\<close> of the client; the URL of a call
  is fixed by its offset.
\<close>

datatype error = NetworkError | HTTPError nat nat | SyntaxError | TypeError | RangeError

text \<open>
\<^verbatim>\<open>response.ok\<close>: the status is in the range 200-299.
\<close>

definition ok :: "nat \<Rightarrow> bool" where
  "ok status = (200 \<le> status \<and> status \<le> 299)"

text \<open>
  The \<^verbatim>\<open>while (hasMore)\<close> loop of \<^verbatim>\<open>fetchPaginatedData\<close> (lines 203-234).
  \<open>fetch offset\<close> is the answer to the request with
  \<^verbatim>\<open>LIMIT PAGE_SIZE OFFSET offset\<close>; the offsets of one call are all different, so a
  function of the offset stands for any sequence of answers. The loop may run forever (a
  service that always answers with full pages), so not returning is the value \<open>None\<close>.
  \<open>requested\<close> is a ghost log of the offsets requested so far, oldest first: it is not in
  the source and only counts the HTTP requests.
\<close>

partial_function (option) fetchLoop ::
  "(nat \<Rightarrow> 'r response) \<Rightarrow> 'r list \<Rightarrow> nat \<Rightarrow> nat list \<Rightarrow> ((error + 'r list) \<times> nat list) option"
where
  "fetchLoop fetch allRows offset requested =
     (case fetch offset of
        Rejected \<Rightarrow> Some (Inl NetworkError, requested @ [offset])
      | Response status body \<Rightarrow>
          if \<not> ok status then Some (Inl (HTTPError status offset), requested @ [offset])
          else (case body of
                  NotJson \<Rightarrow> Some (Inl SyntaxError, requested @ [offset])
                | JsonNull \<Rightarrow> Some (Inl TypeError, requested @ [offset])
                | JsonObj rowsField \<Rightarrow>
                    (let fetchedRows = (case rowsField of None \<Rightarrow> [] | Some rs \<Rightarrow> rs);
                         allRows' = (if length fetchedRows > 0 then allRows @ fetchedRows else allRows)
                     in if length fetchedRows < PAGE_SIZE
                        then Some (Inr allRows', requested @ [offset])
                        else fetchLoop fetch allRows' (offset + PAGE_SIZE) (requested @ [offset]))))"

definition fetchPaginatedData :: "(nat \<Rightarrow> 'r response) \<Rightarrow> ((error + 'r list) \<times> nat list) option" where
  "fetchPaginatedData fetch = fetchLoop fetch [] 0 []"

text \<open>
  The remote service on a query that yields exactly the rows \<open>rows\<close>, in this order:
  \<^verbatim>\<open>LIMIT PAGE_SIZE OFFSET offset\<close> selects \<open>page rows offset\<close>, answered with
  status 200 in the \<^verbatim>\<open>_shape=objects\<close> form.
\<close>

definition page :: "'r list \<Rightarrow> nat \<Rightarrow> 'r list" where
  "page rows offset = take PAGE_SIZE (drop offset rows)"

definition sqlService :: "'r list \<Rightarrow> nat \<Rightarrow> 'r response" where
  "sqlService rows offset = Response 200 (JsonObj (Some (page rows offset)))"

section \<open>Selection state\<close>

text \<open>
  A station as \<^verbatim>\<open>fetchStations\<close> selects it
  (\<^verbatim>\<open>select station_id, name, address from gas_stations\<close>); \<open>station_id\<close> is the
  external id.
\<close>

record station =
  station_id :: string
  name :: string
  address :: string

text \<open>
  A \<^verbatim>\<open>Date\<close> object: a time value in milliseconds since the epoch, or the invalid
  date (time value NaN).
\<close>

datatype date = Date int | InvalidDate

text \<open>
  \<^verbatim>\<open>state.selectedTimeRange\<close> is a string (\<^verbatim>\<open>'1d'\<close>, \<^verbatim>\<open>'7d'\<close>,
  \<^verbatim>\<open>'14d'\<close>, \<^verbatim>\<open>'all'\<close>, or whatever was stored) or an object
  \<^verbatim>\<open>{ start, end }\<close> of two dates.
\<close>

datatype timeRange = TRString string | TRObject date date

text \<open>
  The fields of the global \<^verbatim>\<open>state\<close> object (lines 11-18) that the selection
  operations read or write; \<^verbatim>\<open>priceChart\<close>, \<^verbatim>\<open>fuse\<close> and
  \<^verbatim>\<open>allStations\<close> are left out.
\<close>

record state =
  selectedStations :: "station list"
  selectedFuelTypes :: "string list"
  selectedTimeRange :: timeRange

definition initialState :: state where
  "initialState = \<lparr>selectedStations = [], selectedFuelTypes = [], selectedTimeRange = TRString ''all''\<rparr>"

text \<open>
  \<^verbatim>\<open>handleResultClick\<close> (lines 281-298) and \<^verbatim>\<open>removeStation\<close> (lines 337-343),
  as functions from the state to the new state. Both go on to persist the selection, to
  rewrite the address bar and to redraw; none of these writes the state fields above.
  \<^verbatim>\<open>find\<close> gives the first element with the same id or \<^verbatim>\<open>undefined\<close>; a
  station object is truthy.
\<close>

definition handleResultClick :: "state \<Rightarrow> station \<Rightarrow> state" where
  "handleResultClick st s =
     (if find (\<lambda>t. station_id t = station_id s) (selectedStations st) \<noteq> None then st
      else st\<lparr>selectedStations := selectedStations st @ [s]\<rparr>)"

definition removeStation :: "state \<Rightarrow> string \<Rightarrow> state" where
  "removeStation st stationId =
     st\<lparr>selectedStations := filter (\<lambda>s. station_id s \<noteq> stationId) (selectedStations st)\<rparr>"

text \<open>
A user's sequence of selection changes.
\<close>

datatype mutation = AddStation station | RemoveStation string

fun mutate :: "state \<Rightarrow> mutation \<Rightarrow> state" where
  "mutate st (AddStation s) = handleResultClick st s"
| "mutate st (RemoveStation stationId) = removeStation st stationId"

section \<open>Time window persistence\<close>

text \<open>
  \<^verbatim>\<open>String.prototype.split\<close> with a one-character separator, and
  \<^verbatim>\<open>Array.prototype.join\<close>.
\<close>

fun jsSplit :: "char \<Rightarrow> string \<Rightarrow> string list" where
  "jsSplit sep [] = [[]]"
| "jsSplit sep (c # cs) =
     (if c = sep then [] # jsSplit sep cs
      else (case jsSplit sep cs of [] \<Rightarrow> [[c]] | p # ps \<Rightarrow> (c # p) # ps))"

fun join :: "string \<Rightarrow> string list \<Rightarrow> string" where
  "join sep [] = []"
| "join sep [x] = x"
| "join sep (x # y # ys) = x @ sep @ join sep (y # ys)"

text \<open>
\<^verbatim>\<open>isNaN(date)\<close>: the time value of the date is NaN.
\<close>

definition isNaN :: "date \<Rightarrow> bool" where
  "isNaN d = (d = InvalidDate)"

text \<open>
  \<^verbatim>\<open>Date.prototype.toISOString\<close> throws a RangeError on the invalid date. On a valid
  one it gives the ISO-8601 text of the instant: \<open>isoOf\<close>, a parameter.
\<close>

fun toISOString :: "(int \<Rightarrow> string) \<Rightarrow> date \<Rightarrow> error + string" where
  "toISOString isoOf (Date t) = Inr (isoOf t)"
| "toISOString isoOf InvalidDate = Inl RangeError"

text \<open>
The template \<^verbatim>\<open>`${start.toISOString()};${end.toISOString()}`\<close>.
\<close>

fun serializeRange :: "(int \<Rightarrow> string) \<Rightarrow> date \<Rightarrow> date \<Rightarrow> error + string" where
  "serializeRange isoOf start endD =
     (case toISOString isoOf start of
        Inl e \<Rightarrow> Inl e
      | Inr a \<Rightarrow> (case toISOString isoOf endD of Inl e \<Rightarrow> Inl e | Inr b \<Rightarrow> Inr (a @ '';'' @ b)))"

text \<open>
  \<^verbatim>\<open>saveSelectedTimeRange\<close> (lines 394-404): the value stored under the key
  \<^verbatim>\<open>selectedTimeRange\<close>. A date object is truthy, so an object range always takes
  the first branch.
\<close>

definition saveSelectedTimeRange :: "(int \<Rightarrow> string) \<Rightarrow> state \<Rightarrow> error + string" where
  "saveSelectedTimeRange isoOf st =
     (case selectedTimeRange st of
        TRObject start endD \<Rightarrow> serializeRange isoOf start endD
      | TRString v \<Rightarrow> Inr v)"

text \<open>
  The body shared by both loaders: split at the semicolons, take the first two parts,
  build two dates (\<open>parseDate\<close> is \<^verbatim>\<open>new Date(string)\<close>, a parameter) and keep the
  range when neither is invalid. \<open>None\<close> is falling out of the \<^verbatim>\<open>if\<close>.
\<close>

definition parseRange :: "(string \<Rightarrow> date) \<Rightarrow> string \<Rightarrow> timeRange option" where
  "parseRange parseDate saved =
     (case jsSplit CHR '';'' saved of
        start # endS # _ \<Rightarrow>
          (let startDate = parseDate start; endDate = parseDate endS
           in if \<not> isNaN startDate \<and> \<not> isNaN endDate then Some (TRObject startDate endDate) else None)
      | _ \<Rightarrow> None)"

text \<open>
  \<^verbatim>\<open>loadSelectedTimeRange\<close> (lines 410-421). \<open>item\<close> is
  \<^verbatim>\<open>localStorage.getItem('selectedTimeRange')\<close>; \<^verbatim>\<open>null\<close> and the empty string
  give \<^verbatim>\<open>'all'\<close>. When the pair does not parse the function returns \<open>saved\<close> itself.
\<close>

definition loadSelectedTimeRange :: "(string \<Rightarrow> date) \<Rightarrow> string option \<Rightarrow> timeRange" where
  "loadSelectedTimeRange parseDate item =
     (let saved = (case item of None \<Rightarrow> ''all'' | Some v \<Rightarrow> if v = [] then ''all'' else v)
      in if CHR '';'' \<in> set saved
         then (case parseRange parseDate saved of Some r \<Rightarrow> r | None \<Rightarrow> TRString saved)
         else TRString saved)"

text \<open>
  The three query parameters of the address bar, each absent or a string. The
  percent-encoding of \<^verbatim>\<open>URLSearchParams\<close> is taken to be lossless.
\<close>

record url =
  stations :: "string option"
  fuels :: "string option"
  time :: "string option"

text \<open>
\<^verbatim>\<open>updateUrlWithState\<close> (lines 52-72): the parameters written to the address bar.
\<close>

definition updateUrlWithState :: "(int \<Rightarrow> string) \<Rightarrow> state \<Rightarrow> error + url" where
  "updateUrlWithState isoOf st =
     (case (case selectedTimeRange st of
              TRObject start endD \<Rightarrow> serializeRange isoOf start endD
            | TRString v \<Rightarrow> Inr v) of
        Inl e \<Rightarrow> Inl e
      | Inr t \<Rightarrow>
          Inr \<lparr>stations = (if length (selectedStations st) > 0
                           then Some (join '','' (map station_id (selectedStations st))) else None),
               fuels = Some (join '','' (selectedFuelTypes st)),
               time = Some t\<rparr>)"

text \<open>
A parameter is truthy when it is present and not the empty string.
\<close>

definition truthyParam :: "string option \<Rightarrow> bool" where
  "truthyParam p = (p \<noteq> None \<and> p \<noteq> Some [])"

text \<open>
  \<^verbatim>\<open>loadStateFromUrl\<close> (lines 78-105). \<open>timeRange\<close> stays the raw parameter unless it
  holds a pair of valid dates.
\<close>

record urlState =
  stationIds :: "string list"
  fuelTypes :: "string list option"
  timeRange :: "timeRange option"

definition loadStateFromUrl :: "(string \<Rightarrow> date) \<Rightarrow> url \<Rightarrow> urlState option" where
  "loadStateFromUrl parseDate u =
     (if \<not> truthyParam (stations u) \<and> \<not> truthyParam (fuels u) \<and> \<not> truthyParam (time u) then None
      else Some
        \<lparr>stationIds = (case stations u of None \<Rightarrow> [] | Some v \<Rightarrow> if v = [] then [] else jsSplit CHR '','' v),
         fuelTypes = (case fuels u of None \<Rightarrow> None | Some v \<Rightarrow> Some (if v = [] then [] else jsSplit CHR '','' v)),
         timeRange = (case time u of
                        None \<Rightarrow> None
                      | Some v \<Rightarrow>
                          if v \<noteq> [] \<and> CHR '';'' \<in> set v
                          then (case parseRange parseDate v of Some r \<Rightarrow> Some r | None \<Rightarrow> Some (TRString v))
                          else Some (TRString v))\<rparr>)"

text \<open>
  The value \<^verbatim>\<open>initializeApp\<close> assigns to \<^verbatim>\<open>state.selectedTimeRange\<close> (lines
  138-152): \<^verbatim>\<open>urlState.timeRange || 'all'\<close> when the address bar carries state, the
  stored value otherwise.
\<close>

definition restoredTimeRange :: "(string \<Rightarrow> date) \<Rightarrow> url \<Rightarrow> string option \<Rightarrow> timeRange" where
  "restoredTimeRange parseDate u item =
     (case loadStateFromUrl parseDate u of
        Some urlState \<Rightarrow>
          (case timeRange urlState of
             None \<Rightarrow> TRString ''all''
           | Some (TRString v) \<Rightarrow> if v = [] then TRString ''all'' else TRString v
           | Some r \<Rightarrow> r)
      | None \<Rightarrow> loadSelectedTimeRange parseDate item)"

text \<open>
  \<^verbatim>\<open>loadSelectedStations\<close> (lines 358-365). \<open>savedIds\<close> is the array of ids that
  \<^verbatim>\<open>JSON.parse\<close> reads from the key \<^verbatim>\<open>selectedStationIds\<close>, the empty array when
  nothing is stored. \<^verbatim>\<open>ids.map(id => allStations.find(...)).filter(Boolean)\<close> looks
  every id up in the directory, in the order of the ids, and drops the ids that are not
  found.
\<close>

definition loadSelectedStations :: "station list \<Rightarrow> string list \<Rightarrow> station list" where
  "loadSelectedStations allStations savedIds =
     (if length savedIds > 0 \<and> length allStations > 0
      then List.map_filter (\<lambda>i. find (\<lambda>s. station_id s = i) allStations) savedIds
      else [])"

text \<open>
  The value \<^verbatim>\<open>initializeApp\<close> assigns to \<^verbatim>\<open>state.selectedStations\<close> (lines
  138-152): the stations of the ids in the address bar when it carries state, the stored
  selection otherwise. \<open>allStations\<close> is the directory in \<^verbatim>\<open>state.allStations\<close>.
\<close>

definition restoredStations :: "(string \<Rightarrow> date) \<Rightarrow> station list \<Rightarrow> url \<Rightarrow> string list \<Rightarrow> station list" where
  "restoredStations parseDate allStations u savedIds =
     (case loadStateFromUrl parseDate u of
        Some urlState \<Rightarrow> List.map_filter (\<lambda>i. find (\<lambda>s. station_id s = i) allStations) (stationIds urlState)
      | None \<Rightarrow> loadSelectedStations allStations savedIds)"

text \<open>
  A row of the price history as \<^verbatim>\<open>fetchPriceHistory\<close> selects it.
\<close>

record priceRow =
  last_transmission :: string
  price_diesel :: "real option"
  price_super :: "real option"
  price_super_e10 :: "real option"

text \<open>
  \<^verbatim>\<open>a <= b\<close> on dates compares the time values; a comparison with NaN is false.
\<close>

fun dateLe :: "date \<Rightarrow> date \<Rightarrow> bool" where
  "dateLe (Date a) (Date b) = (a \<le> b)"
| "dateLe _ _ = False"

text \<open>
  \<^verbatim>\<open>filterDataByTimeRange\<close> (lines 448-478). \<open>daysAgo k\<close> is the date that
  \<^verbatim>\<open>startDate.setDate(now.getDate() - k)\<close> leaves in \<^verbatim>\<open>startDate\<close>: the clock
  and the calendar are parameters. A string that is no preset leaves the data unfiltered.
\<close>

definition filterDataByTimeRange ::
  "(string \<Rightarrow> date) \<Rightarrow> (nat \<Rightarrow> date) \<Rightarrow> priceRow list \<Rightarrow> timeRange \<Rightarrow> priceRow list" where
  "filterDataByTimeRange parseDate daysAgo priceData rng =
     (case rng of
        TRObject startDate endDate \<Rightarrow>
          filter (\<lambda>row. let rowDate = parseDate (last_transmission row)
                        in dateLe startDate rowDate \<and> dateLe rowDate endDate) priceData
      | TRString v \<Rightarrow>
          if v = ''all'' then priceData
          else if v = ''1d'' then filter (\<lambda>row. dateLe (daysAgo 1) (parseDate (last_transmission row))) priceData
          else if v = ''7d'' then filter (\<lambda>row. dateLe (daysAgo 7) (parseDate (last_transmission row))) priceData
          else if v = ''14d'' then filter (\<lambda>row. dateLe (daysAgo 14) (parseDate (last_transmission row))) priceData
          else priceData)"

section \<open>Fuel types and price rows\<close>

text \<open>
  The three keys of \<^verbatim>\<open>FUEL_TYPE_CONFIG\<close> (lines 27-31); the analytics are only called
  with these. \<open>price row key\<close> is \<^verbatim>\<open>row[key]\<close>.
\<close>

datatype fuelKey = PriceDiesel | PriceSuper | PriceSuperE10

fun keyString :: "fuelKey \<Rightarrow> string" where
  "keyString PriceDiesel = ''price_diesel''"
| "keyString PriceSuper = ''price_super''"
| "keyString PriceSuperE10 = ''price_super_e10''"

record fuelType =
  key :: fuelKey
  fuelName :: string
  style :: string

definition FUEL_TYPE_CONFIG :: "fuelType list" where
  "FUEL_TYPE_CONFIG =
     [\<lparr>key = PriceDiesel, fuelName = ''Diesel'', style = ''solid''\<rparr>,
      \<lparr>key = PriceSuper, fuelName = ''Super E5'', style = ''dashed''\<rparr>,
      \<lparr>key = PriceSuperE10, fuelName = ''Super E10'', style = ''dotted''\<rparr>]"

definition CHART_COLORS :: "string list" where
  "CHART_COLORS =
     [''rgba(255, 99, 132, 1)'', ''rgba(54, 162, 235, 1)'', ''rgba(75, 192, 192, 1)'',
      ''rgba(255, 159, 64, 1)'', ''rgba(153, 102, 255, 1)'', ''rgba(255, 205, 86, 1)'']"

fun price :: "priceRow \<Rightarrow> fuelKey \<Rightarrow> real option" where
  "price row PriceDiesel = price_diesel row"
| "price row PriceSuper = price_super row"
| "price row PriceSuperE10 = price_super_e10 row"

text \<open>
  The truthiness of a \<^verbatim>\<open>number | null\<close>: \<^verbatim>\<open>null\<close> and 0 are falsy.
\<close>

definition truthy :: "real option \<Rightarrow> bool" where
  "truthy v = (v \<noteq> None \<and> v \<noteq> Some 0)"

text \<open>
  \<^verbatim>\<open>{ station, data }\<close>, an element of \<^verbatim>\<open>stationDataArray\<close>.
\<close>

record stationData =
  station :: station
  data :: "priceRow list"

text \<open>
  \<^verbatim>\<open>FUEL_TYPE_CONFIG.filter(fuel => state.selectedFuelTypes.includes(fuel.key))\<close>.
\<close>

definition activeFuelTypes :: "state \<Rightarrow> fuelType list" where
  "activeFuelTypes st = filter (\<lambda>fuel. keyString (key fuel) \<in> set (selectedFuelTypes st)) FUEL_TYPE_CONFIG"

section \<open>Refresh\<close>

text \<open>
  \<^verbatim>\<open>fetchPriceHistory\<close> (lines 522-549): the \<^verbatim>\<open>catch\<close> turns every exception of
  the paginated fetch into the empty array. \<open>service stationId\<close> is the remote service
  on the history query of that station (the 30-day bound is part of the query).
\<close>

definition fetchPriceHistory :: "(string \<Rightarrow> nat \<Rightarrow> priceRow response) \<Rightarrow> string \<Rightarrow> priceRow list option" where
  "fetchPriceHistory service stationId =
     (case fetchPaginatedData (service stationId) of
        None \<Rightarrow> None
      | Some (Inl e, requested) \<Rightarrow> Some []
      | Some (Inr rows, requested) \<Rightarrow> Some rows)"

text \<open>
  \<^verbatim>\<open>Promise.all\<close>: the results in the order of the promises, once all are settled;
  it never resolves when one of them never does. No promise here rejects, and the fetches
  do not share state, so the order in which they complete does not show.
\<close>

fun awaitAll :: "'a option list \<Rightarrow> 'a list option" where
  "awaitAll [] = Some []"
| "awaitAll (p # ps) =
     (case p of
        None \<Rightarrow> None
      | Some r \<Rightarrow> (case awaitAll ps of None \<Rightarrow> None | Some rs \<Rightarrow> Some (r # rs)))"

text \<open>
  The first half of \<^verbatim>\<open>updateChartAndAnalysis\<close> (lines 495-501): fetch every selected
  station's history and pair each station with its result.
\<close>

definition fetchStationData :: "(string \<Rightarrow> nat \<Rightarrow> priceRow response) \<Rightarrow> state \<Rightarrow> stationData list option" where
  "fetchStationData service st =
     (case awaitAll (map (\<lambda>s. fetchPriceHistory service (station_id s)) (selectedStations st)) of
        None \<Rightarrow> None
      | Some results \<Rightarrow>
          Some (map (\<lambda>(s, index). \<lparr>station = s, data = results ! index\<rparr>)
                    (zip (selectedStations st) [0..<length (selectedStations st)])))"

section \<open>Chart alignment\<close>

text \<open>
  \<^verbatim>\<open>renderMultiStationChart\<close> (lines 562-591). \<open>setAdd\<close> is \<^verbatim>\<open>Set.add\<close> on
  a set kept in insertion order; \<^verbatim>\<open>Array.from(allTimestamps).sort()\<close> sorts the
  timestamp strings by code unit, which is the lexicographic order of \<^typ>\<open>string\<close>.
\<close>

definition setAdd :: "string list \<Rightarrow> string \<Rightarrow> string list" where
  "setAdd acc t = (if t \<in> set acc then acc else acc @ [t])"

definition allTimestamps :: "stationData list \<Rightarrow> string list" where
  "allTimestamps stationDataArray =
     foldl (\<lambda>acc sd. foldl (\<lambda>acc row. setAdd acc (last_transmission row)) acc (data sd)) [] stationDataArray"

text \<open>
  \<^verbatim>\<open>new Map(sd.data.map(row => [row.last_transmission, row[fuel.key]]))\<close>: a later
  row with the same timestamp overwrites an earlier one.
\<close>

definition priceMap :: "stationData \<Rightarrow> fuelKey \<Rightarrow> (string \<rightharpoonup> real option)" where
  "priceMap sd fuelKey = foldl (\<lambda>m row. m(last_transmission row \<mapsto> price row fuelKey)) Map.empty (data sd)"

text \<open>
  \<^verbatim>\<open>priceMap.get(ts) || null\<close>: a missing key, \<^verbatim>\<open>null\<close> and 0 all give
  \<^verbatim>\<open>null\<close>.
\<close>

fun orNull :: "real option option \<Rightarrow> real option" where
  "orNull None = None"
| "orNull (Some v) = (if truthy v then v else None)"

text \<open>
  One line of the chart; \<open>dataPoints\<close> is its \<^verbatim>\<open>data\<close> field. The constant fields
  \<^verbatim>\<open>fill\<close> and \<^verbatim>\<open>tension\<close> are left out.
\<close>

record dataset =
  label :: string
  dataPoints :: "real option list"
  borderColor :: string
  borderDash :: "nat list"

definition buildDataset :: "string list \<Rightarrow> stationData \<Rightarrow> nat \<Rightarrow> fuelType \<Rightarrow> dataset" where
  "buildDataset sortedLabels sd index fuel =
     \<lparr>label = name (station sd) @ '' - '' @ fuelName fuel,
      dataPoints = map (\<lambda>t. orNull (priceMap sd (key fuel) t)) sortedLabels,
      borderColor = CHART_COLORS ! (index mod length CHART_COLORS),
      borderDash = (if style fuel = ''dashed'' then [5, 5] else if style fuel = ''dotted'' then [1, 5] else [])\<rparr>"

text \<open>
  The chart data: the sorted master list of timestamps (the chart shows them formatted
  by \<^verbatim>\<open>toLocaleString\<close>) and one dataset per station and active fuel type.
\<close>

record chart =
  sortedLabels :: "string list"
  datasets :: "dataset list"

definition renderMultiStationChart :: "state \<Rightarrow> stationData list \<Rightarrow> chart" where
  "renderMultiStationChart st stationDataArray =
     (let labels = sort (allTimestamps stationDataArray)
      in \<lparr>sortedLabels = labels,
          datasets = concat (map (\<lambda>(sd, index). map (buildDataset labels sd index) (activeFuelTypes st))
                                 (zip stationDataArray [0..<length stationDataArray]))\<rparr>)"

section \<open>Numbers and their arithmetic\<close>

text \<open>
  A JavaScript number: a finite double, an infinity or NaN. The searches for a minimum
  and a maximum start from \<^verbatim>\<open>Infinity\<close> and \<^verbatim>\<open>-Infinity\<close>; \<open>lt\<close> is
  \<^verbatim>\<open><\<close> on numbers, false whenever a side is NaN.
\<close>

datatype number = Num real | Infinity | NegInfinity | NaN

fun lt :: "number \<Rightarrow> number \<Rightarrow> bool" where
  "lt (Num a) (Num b) = (a < b)"
| "lt (Num a) Infinity = True"
| "lt NegInfinity (Num b) = True"
| "lt NegInfinity Infinity = True"
| "lt _ _ = False"

text \<open>
  The arithmetic of the platform on doubles: \<^verbatim>\<open>+\<close>, \<^verbatim>\<open>-\<close>, \<^verbatim>\<open>*\<close>,
  \<^verbatim>\<open>/\<close>, \<^verbatim>\<open>**\<close>, \<^verbatim>\<open>Math.sqrt\<close>, and the double that a decimal literal of
  the source text denotes (\<open>literal 0.02\<close> is the double written \<^verbatim>\<open>0.02\<close>). Every
  result is rounded (so \<^verbatim>\<open>1.1 + 1.3\<close> is \<^verbatim>\<open>2.4000000000000004\<close>), may be an
  infinity after an overflow, or NaN. The model takes these operations as they are and
  assumes nothing about them.
\<close>

record arith =
  fadd :: "number \<Rightarrow> number \<Rightarrow> number"
  fsub :: "number \<Rightarrow> number \<Rightarrow> number"
  fmul :: "number \<Rightarrow> number \<Rightarrow> number"
  fdiv :: "number \<Rightarrow> number \<Rightarrow> number"
  fpow :: "number \<Rightarrow> number \<Rightarrow> number"
  fsqrt :: "number \<Rightarrow> number"
  literal :: "real \<Rightarrow> number"

section \<open>Cheapest station\<close>

text \<open>
  \<^verbatim>\<open>findCheapest\<close> inside \<^verbatim>\<open>analyzeMultiStationPrices\<close> (lines 719-730):
  \<open>cheapest\<close> is the pair \<^verbatim>\<open>{ station, price }\<close>, starting at
  \<^verbatim>\<open>{ station: null, price: Infinity }\<close>.
\<close>

definition findCheapest_step :: "fuelKey \<Rightarrow> station option \<times> number \<Rightarrow> stationData \<Rightarrow> station option \<times> number" where
  "findCheapest_step fuelKey cheapest sd =
     (if length (data sd) > 0
      then (case price (last (data sd)) fuelKey of
              None \<Rightarrow> cheapest
            | Some latestPrice \<Rightarrow>
                if latestPrice \<noteq> 0 \<and> lt (Num latestPrice) (snd cheapest)
                then (Some (station sd), Num latestPrice) else cheapest)
      else cheapest)"

definition findCheapest :: "stationData list \<Rightarrow> fuelKey \<Rightarrow> (station option \<times> number) option" where
  "findCheapest stationDataArray fuelKey =
     (let cheapest = foldl (findCheapest_step fuelKey) (None, Infinity) stationDataArray
      in if snd cheapest = Infinity then None else Some cheapest)"

section \<open>Price patterns\<close>

text \<open>
  \<^verbatim>\<open>analyzePricePatterns\<close> (lines 652-705). A \<open>stat\<close> is \<^verbatim>\<open>{ sum, count }\<close>:
  the sum is a double, added to with the platform's \<^verbatim>\<open>+\<close> one price at a time from
  0, and the count an integer (counts are exact in doubles). An average is the platform's
  quotient of the two. \<open>localTime ts\<close> is the pair \<^verbatim>\<open>(getDay(), getHours())\<close> of
  \<^verbatim>\<open>new Date(ts)\<close> in the browser's time zone, \<open>None\<close> for an invalid date (both are
  NaN then). Indexing the statistics with NaN or out of range gives \<^verbatim>\<open>undefined\<close>,
  and adding to its \<^verbatim>\<open>sum\<close> throws a TypeError.
\<close>

type_synonym stat = "number \<times> nat"

definition addPrice :: "arith \<Rightarrow> stat list \<Rightarrow> nat \<Rightarrow> real \<Rightarrow> stat list" where
  "addPrice ar stats i p = stats[i := (fadd ar (fst (stats ! i)) (Num p), Suc (snd (stats ! i)))]"

fun accumulate ::
  "arith \<Rightarrow> (string \<Rightarrow> (nat \<times> nat) option) \<Rightarrow> fuelKey \<Rightarrow> priceRow list \<Rightarrow> stat list \<Rightarrow> stat list
     \<Rightarrow> error + (stat list \<times> stat list)" where
  "accumulate ar localTime fuelKey [] dailyStats hourlyStats = Inr (dailyStats, hourlyStats)"
| "accumulate ar localTime fuelKey (row # rows) dailyStats hourlyStats =
     (if truthy (price row fuelKey)
      then (case localTime (last_transmission row) of
              None \<Rightarrow> Inl TypeError
            | Some (day, hour) \<Rightarrow>
                if day < length dailyStats \<and> hour < length hourlyStats
                then accumulate ar localTime fuelKey rows
                       (addPrice ar dailyStats day (the (price row fuelKey)))
                       (addPrice ar hourlyStats hour (the (price row fuelKey)))
                else Inl TypeError)
      else accumulate ar localTime fuelKey rows dailyStats hourlyStats)"

definition averages :: "arith \<Rightarrow> stat list \<Rightarrow> number option list" where
  "averages ar stats =
     map (\<lambda>stat. if snd stat > 0 then Some (fdiv ar (fst stat) (Num (real (snd stat)))) else None) stats"

text \<open>
  The two \<^verbatim>\<open>forEach\<close> searches: \<open>acc\<close> is the pair of \<^verbatim>\<open>cheapest\<close> and
  \<^verbatim>\<open>dearest\<close>, each an \<^verbatim>\<open>{ index, price }\<close>; an entry is an average with its
  index.
\<close>

definition extrema_step ::
  "(int \<times> number) \<times> (int \<times> number) \<Rightarrow> number option \<times> nat \<Rightarrow> (int \<times> number) \<times> (int \<times> number)" where
  "extrema_step acc entry =
     (case fst entry of
        None \<Rightarrow> acc
      | Some p \<Rightarrow>
          (if lt p (snd (fst acc)) then (int (snd entry), p) else fst acc,
           if lt (snd (snd acc)) p then (int (snd entry), p) else snd acc))"

definition extrema :: "number option list \<Rightarrow> (int \<times> number) \<times> (int \<times> number)" where
  "extrema avgs = foldl extrema_step ((- 1, Infinity), (- 1, NegInfinity)) (zip avgs [0..<length avgs])"

definition dayNames :: "string list" where
  "dayNames = [''Sonntag'', ''Montag'', ''Dienstag'', ''Mittwoch'', ''Donnerstag'', ''Freitag'', ''Samstag'']"

text \<open>
\<^verbatim>\<open>dayNames[index]\<close>, \<^verbatim>\<open>undefined\<close> out of range.
\<close>

definition dayName :: "int \<Rightarrow> string option" where
  "dayName i = (if 0 \<le> i \<and> i < int (length dayNames) then Some (dayNames ! nat i) else None)"

record patterns =
  cheapestDay :: "string option \<times> number"
  dearestDay :: "string option \<times> number"
  cheapestHour :: "int \<times> number"
  dearestHour :: "int \<times> number"

definition analyzePricePatterns ::
  "arith \<Rightarrow> (string \<Rightarrow> (nat \<times> nat) option) \<Rightarrow> priceRow list \<Rightarrow> fuelKey \<Rightarrow> error + patterns option" where
  "analyzePricePatterns ar localTime priceData fuelKey =
     (case accumulate ar localTime fuelKey priceData (replicate 7 (Num 0, 0)) (replicate 24 (Num 0, 0)) of
        Inl e \<Rightarrow> Inl e
      | Inr (dailyStats, hourlyStats) \<Rightarrow>
          (let days = extrema (averages ar dailyStats);
               hours = extrema (averages ar hourlyStats)
           in if fst (fst days) = - 1 \<or> fst (fst hours) = - 1 then Inr None
              else Inr (Some
                \<lparr>cheapestDay = (dayName (fst (fst days)), snd (fst days)),
                 dearestDay = (dayName (fst (snd days)), snd (snd days)),
                 cheapestHour = fst hours,
                 dearestHour = snd hours\<rparr>)))"

section \<open>Buy/wait advice\<close>

text \<open>
  \<^verbatim>\<open>computeAdvice\<close> of \<^verbatim>\<open>App.tsx\<close> (lines 142-178), called with one of the three
  fuel columns of a \<^verbatim>\<open>PriceRow\<close>.
\<close>

record PriceRow =
  ts :: string
  diesel :: "real option"
  super :: "real option"
  e10 :: "real option"

datatype FuelKey = Diesel | Super | E10

fun rowValue :: "PriceRow \<Rightarrow> FuelKey \<Rightarrow> real option" where
  "rowValue r Diesel = diesel r"
| "rowValue r Super = super r"
| "rowValue r E10 = e10 r"

datatype decision = Buy | Wait | Neutral

record bestWindow =
  startHour :: nat
  endHour :: nat
  avg :: number

text \<open>
  The constants \<^verbatim>\<open>last\<close>, \<^verbatim>\<open>median\<close>, \<^verbatim>\<open>mean\<close> and \<^verbatim>\<open>std\<close> that
  the function computes before its loop (lines 149-153), and the returned object, which
  holds these four and three more fields. \<open>lastPoint\<close> is \<^verbatim>\<open>last\<close> (the date, kept
  as the timestamp it was built from, and the value). \<open>nextBest\<close> stands for the date
  \<^verbatim>\<open>nextBest\<close>: the number of days added to today and the hour it is set to.
\<close>

record stats =
  lastPoint :: "string \<times> real"
  median :: real
  mean :: number
  std :: number

record advice = stats +
  bestWindow :: bestWindow
  decision :: decision
  nextBest :: "nat \<times> nat"

text \<open>
  \<^verbatim>\<open>rows.map(...).filter((x) => x.v != null)\<close>: the points with a value, in order.
\<close>

definition nonNull :: "PriceRow list \<Rightarrow> FuelKey \<Rightarrow> (string \<times> real) list" where
  "nonNull rows fuelKey =
     map (\<lambda>x. (fst x, the (snd x))) (filter (\<lambda>x. snd x \<noteq> None) (map (\<lambda>r. (ts r, rowValue r fuelKey)) rows))"

text \<open>
  \<^verbatim>\<open>a <= b\<close> on numbers (true when neither side is NaN and \<^verbatim>\<open>b < a\<close> is not
  true), and \<^verbatim>\<open>Math.max\<close> of two numbers (NaN when a side is NaN).
\<close>

definition le :: "number \<Rightarrow> number \<Rightarrow> bool" where
  "le a b = (a \<noteq> NaN \<and> b \<noteq> NaN \<and> \<not> lt b a)"

definition jsMax :: "number \<Rightarrow> number \<Rightarrow> number" where
  "jsMax a b = (if a = NaN \<or> b = NaN then NaN else if lt a b then b else a)"

text \<open>
  Lines 143-153 of \<^verbatim>\<open>computeAdvice\<close>, up to the hourly loop: \<open>None\<close> is the early
  \<^verbatim>\<open>return null\<close> on fewer than 3 values. The comparator \<^verbatim>\<open>(a, b) => a - b\<close>
  sorts finite doubles ascending (the sign of the rounded difference is that of the exact
  one). The mean and the deviation are computed with the platform's arithmetic over the
  sorted values.
\<close>

definition statistics :: "arith \<Rightarrow> PriceRow list \<Rightarrow> FuelKey \<Rightarrow> stats option" where
  "statistics ar rows fuelKey =
     (let vals = nonNull rows fuelKey in
      if length vals < 3 then None
      else
        let lastV = vals ! (length vals - 1);
            sorted = sort (map snd vals);
            median = sorted ! (length sorted div 2);
            mean = fdiv ar (foldl (\<lambda>a b. fadd ar a (Num b)) (Num 0) sorted) (Num (real (length sorted)));
            std = fsqrt ar
                    (fdiv ar
                       (foldl (\<lambda>acc v. fadd ar acc (fpow ar (fsub ar (Num v) mean) (Num 2))) (Num 0) sorted)
                       (Num (real (length sorted))))
        in Some \<lparr>lastPoint = lastV, median = median, mean = mean, std = std\<rparr>)"

text \<open>
  The \<^verbatim>\<open>for\<close> loop over the values (lines 155-160). \<open>berlinHour date\<close> is
  \<^verbatim>\<open>Number(new Intl.DateTimeFormat("de-DE", {hour: "2-digit", hour12: false,
  timeZone: "Europe/Berlin"}).format(date))\<close>, a parameter: \<open>Inl e\<close> when the formatting
  throws \<open>e\<close>, \<open>Inr (Some h)\<close> when the result is the natural number \<open>h\<close>, and
  \<open>Inr None\<close> when it is anything else: NaN, as for a text that is not a number, or a
  number that is no index. \<^verbatim>\<open>perHour[h]\<close> is \<^verbatim>\<open>undefined\<close> for these and for an
  index of 24 or more, and adding to its \<^verbatim>\<open>sum\<close> throws a TypeError.
\<close>

fun perHourLoop ::
  "arith \<Rightarrow> (string \<Rightarrow> error + nat option) \<Rightarrow> (string \<times> real) list \<Rightarrow> stat list \<Rightarrow> error + stat list" where
  "perHourLoop ar berlinHour [] perHour = Inr perHour"
| "perHourLoop ar berlinHour ((date, v) # rest) perHour =
     (case berlinHour date of
        Inl e \<Rightarrow> Inl e
      | Inr None \<Rightarrow> Inl TypeError
      | Inr (Some h) \<Rightarrow>
          if h < length perHour then perHourLoop ar berlinHour rest (addPrice ar perHour h v)
          else Inl TypeError)"

text \<open>
  The hourly averages (\<^verbatim>\<open>x.n ? x.sum / x.n : Infinity\<close>) and the \<^verbatim>\<open>reduce\<close> that
  keeps the first hour with the least average.
\<close>

definition hourAvg :: "arith \<Rightarrow> stat list \<Rightarrow> (nat \<times> number) list" where
  "hourAvg ar perHour =
     map (\<lambda>(x, h). (h, if snd x \<noteq> 0 then fdiv ar (fst x) (Num (real (snd x))) else Infinity))
         (zip perHour [0..<length perHour])"

definition bestHour :: "(nat \<times> number) list \<Rightarrow> nat \<times> number" where
  "bestHour avgs = foldl (\<lambda>mn cur. if lt (snd cur) (snd mn) then cur else mn) (0, Infinity) avgs"

text \<open>
  The whole function: the statistics, the loop, and lines 161-177. \<open>curHour\<close> is the
  current hour in Berlin as line 170 extracts it, \<open>None\<close> when \<^verbatim>\<open>Number(...)\<close> of
  the formatted clock is NaN (the comparison is false then). The window's \<open>avg\<close> is the
  average of the best hour alone.
\<close>

definition computeAdvice ::
  "arith \<Rightarrow> (string \<Rightarrow> error + nat option) \<Rightarrow> nat option \<Rightarrow> PriceRow list \<Rightarrow> FuelKey
     \<Rightarrow> error + advice option" where
  "computeAdvice ar berlinHour curHour rows fuelKey =
     (case statistics ar rows fuelKey of
        None \<Rightarrow> Inr None
      | Some s \<Rightarrow>
          (case perHourLoop ar berlinHour (nonNull rows fuelKey) (replicate 24 (Num 0, 0)) of
             Inl e \<Rightarrow> Inl e
           | Inr perHour \<Rightarrow>
               let best = bestHour (hourAvg ar perHour);
                   window = \<lparr>startHour = fst best, endHour = (fst best + 2) mod 24, avg = snd best\<rparr>;
                   priceNow = Num (snd (lastPoint s));
                   isBargain = le priceNow (fadd ar (avg window) (literal ar 0.02));
                   isExpensive =
                     le (fadd ar (Num (median s)) (jsMax (literal ar 0.03) (fmul ar (literal ar 1.5) (std s))))
                        priceNow;
                   daysOffset = (case curHour of None \<Rightarrow> 1 | Some c \<Rightarrow> if c \<le> startHour window then 0 else (1::nat))
               in Inr (Some
                    \<lparr>lastPoint = lastPoint s, median = median s, mean = mean s, std = std s,
                     bestWindow = window,
                     decision = (if isBargain then Buy else if isExpensive then Wait else Neutral),
                     nextBest = (daysOffset, startHour window)\<rparr>)))"

text \<open>
  The hour extraction of the loop as the platform performs it. The German text of an
  hour alone is its two digits followed by the word \<^verbatim>\<open>Uhr\<close> (\<^verbatim>\<open>09 Uhr\<close>), which
  \<^verbatim>\<open>Number\<close> does not read as a number: the result is NaN on every valid date.
  Formatting the invalid date throws a RangeError. \<open>valid ts\<close> tells whether
  \<^verbatim>\<open>new Date(ts)\<close> is a valid date. (Line 170 formats the clock with
  \<^verbatim>\<open>en-CA\<close>, whose text for an hour alone is the plain number.)
\<close>

definition deHour :: "(string \<Rightarrow> bool) \<Rightarrow> string \<Rightarrow> error + nat option" where
  "deHour valid t = (if valid t then Inr None else Inl RangeError)"

section \<open>Specification vocabulary\<close>

text \<open>
  The words of the specification, defined on their own; the theorems compare them with
  the code above.
\<close>

text \<open>
No two selected stations share an external id.
\<close>

definition noDuplicateIds :: "state \<Rightarrow> bool" where
  "noDuplicateIds st = distinct (map station_id (selectedStations st))"

text \<open>
  The most recent reported value of a station for a fuel: that of the last point of its
  series, \<open>None\<close> when it has no points.
\<close>

definition latest :: "fuelKey \<Rightarrow> stationData \<Rightarrow> real option" where
  "latest fuelKey sd = (if data sd = [] then None else price (last (data sd)) fuelKey)"

text \<open>
  \<open>isFirstMin vs i p\<close>: among the entries of \<open>vs\<close> that hold a value, the one at index
  \<open>i\<close> holds \<open>p\<close>, no entry holds less, and no earlier entry holds \<open>p\<close>.
  \<open>isFirstMax\<close> likewise for the greatest.
\<close>

definition isFirstMin :: "real option list \<Rightarrow> nat \<Rightarrow> real \<Rightarrow> bool" where
  "isFirstMin vs i p =
     (i < length vs \<and> vs ! i = Some p \<and>
      (\<forall>j<length vs. \<forall>q. vs ! j = Some q \<longrightarrow> p \<le> q) \<and>
      (\<forall>j<i. vs ! j \<noteq> Some p))"

definition isFirstMax :: "real option list \<Rightarrow> nat \<Rightarrow> real \<Rightarrow> bool" where
  "isFirstMax vs i p =
     (i < length vs \<and> vs ! i = Some p \<and>
      (\<forall>j<length vs. \<forall>q. vs ! j = Some q \<longrightarrow> q \<le> p) \<and>
      (\<forall>j<i. vs ! j \<noteq> Some p))"

text \<open>
  The price a station reports at exactly the timestamp \<open>ts\<close>: that of its last row with
  this timestamp, \<open>None\<close> when it has no such row.
\<close>

definition reportedAt :: "stationData \<Rightarrow> fuelKey \<Rightarrow> string \<Rightarrow> real option" where
  "reportedAt sd fuelKey t =
     (case find (\<lambda>row. last_transmission row = t) (rev (data sd)) of
        None \<Rightarrow> None
      | Some row \<Rightarrow> price row fuelKey)"

text \<open>
All timestamps of all stations' series.
\<close>

definition timestampsOf :: "stationData list \<Rightarrow> string set" where
  "timestampsOf stationDataArray = (\<Union>sd\<in>set stationDataArray. last_transmission ` set (data sd))"

text \<open>
  The weekday and the hour of a row, and the prices of the non-null points that fall
  into slot \<open>k\<close>, in order.
\<close>

definition dayOf :: "(string \<Rightarrow> (nat \<times> nat) option) \<Rightarrow> priceRow \<Rightarrow> nat option" where
  "dayOf localTime row = map_option fst (localTime (last_transmission row))"

definition hourOf :: "(string \<Rightarrow> (nat \<times> nat) option) \<Rightarrow> priceRow \<Rightarrow> nat option" where
  "hourOf localTime row = map_option snd (localTime (last_transmission row))"

fun bucket :: "(priceRow \<Rightarrow> nat option) \<Rightarrow> fuelKey \<Rightarrow> priceRow list \<Rightarrow> nat \<Rightarrow> real list" where
  "bucket slot fuelKey [] k = []"
| "bucket slot fuelKey (row # rows) k =
     (case price row fuelKey of
        None \<Rightarrow> bucket slot fuelKey rows k
      | Some p \<Rightarrow> if slot row = Some k then p # bucket slot fuelKey rows k else bucket slot fuelKey rows k)"

text \<open>
  The arithmetic mean of a list of prices in the arithmetic of the platform: the prices
  added one after the other, from 0, and the sum divided by their number. (With an
  arithmetic that does not round this is the sum of the list over its length, see
  \<open>floatMean_exact\<close> below.)
\<close>

definition floatSum :: "arith \<Rightarrow> real list \<Rightarrow> number" where
  "floatSum ar xs = foldl (\<lambda>s p. fadd ar s (Num p)) (Num 0) xs"

definition floatMean :: "arith \<Rightarrow> real list \<Rightarrow> number" where
  "floatMean ar xs = fdiv ar (floatSum ar xs) (Num (real (length xs)))"

text \<open>
The value of a finite number.
\<close>

fun finiteValue :: "number \<Rightarrow> real option" where
  "finiteValue (Num m) = Some m"
| "finiteValue _ = None"

text \<open>
  The means of the buckets \<open>0, ..., n - 1\<close>: an empty bucket has none. \<open>finiteMeans\<close>
  says that the mean of every bucket that holds a price is finite (no sum overflowed).
\<close>

definition bucketMeans ::
  "arith \<Rightarrow> (priceRow \<Rightarrow> nat option) \<Rightarrow> fuelKey \<Rightarrow> priceRow list \<Rightarrow> nat \<Rightarrow> real option list" where
  "bucketMeans ar slot fuelKey rows n =
     map (\<lambda>k. if bucket slot fuelKey rows k = [] then None
              else finiteValue (floatMean ar (bucket slot fuelKey rows k))) [0..<n]"

definition finiteMeans ::
  "arith \<Rightarrow> (priceRow \<Rightarrow> nat option) \<Rightarrow> fuelKey \<Rightarrow> priceRow list \<Rightarrow> nat \<Rightarrow> bool" where
  "finiteMeans ar slot fuelKey rows n =
     (\<forall>k<n. bucket slot fuelKey rows k \<noteq> [] \<longrightarrow>
        finiteValue (floatMean ar (bucket slot fuelKey rows k)) \<noteq> None)"

text \<open>
  The non-null values of a series, and a median of a list: a member with at least half
  of the list at or below it and at least half at or above it.
\<close>

definition pricesOf :: "PriceRow list \<Rightarrow> FuelKey \<Rightarrow> real list" where
  "pricesOf rows fuelKey = map snd (nonNull rows fuelKey)"

definition isMedian :: "real \<Rightarrow> real list \<Rightarrow> bool" where
  "isMedian m vs =
     (m \<in> set vs \<and>
      length vs \<le> 2 * length (filter (\<lambda>v. v \<le> m) vs) \<and>
      length vs \<le> 2 * length (filter (\<lambda>v. m \<le> v) vs))"

text \<open>
  Auxiliary notions of the proofs: the statistics after adding the buckets \<open>b\<close>, the
  two searches on averages that are all finite, and the prices \<^verbatim>\<open>findCheapest\<close>
  compares.
\<close>

definition filled :: "arith \<Rightarrow> stat list \<Rightarrow> (nat \<Rightarrow> real list) \<Rightarrow> stat list" where
  "filled ar stats b =
     map (\<lambda>k. (foldl (\<lambda>s p. fadd ar s (Num p)) (fst (stats ! k)) (b k), snd (stats ! k) + length (b k)))
       [0..<length stats]"

definition extremaR :: "real option list \<Rightarrow> (int \<times> number) \<times> (int \<times> number)" where
  "extremaR vs = extrema (map (map_option Num) vs)"

definition candidates :: "fuelKey \<Rightarrow> stationData list \<Rightarrow> real option list" where
  "candidates fuelKey arr = map (\<lambda>sd. if truthy (latest fuelKey sd) then latest fuelKey sd else None) arr"

section \<open>Example inputs\<close>

text \<open>
  Two instants with their ISO texts, as \<^verbatim>\<open>toISOString\<close> and \<^verbatim>\<open>new Date\<close> treat
  them; \<open>exampleParse\<close> is right on these two texts and on the text \<^verbatim>\<open>gestern\<close>, which
  is no date, and is used on nothing else.
\<close>

definition exampleISO :: "int \<Rightarrow> string" where
  "exampleISO t = (if t = 86400000 then ''1970-01-02T00:00:00.000Z'' else ''1970-01-01T00:00:00.000Z'')"

definition exampleParse :: "string \<Rightarrow> date" where
  "exampleParse s =
     (if s = ''1970-01-01T00:00:00.000Z'' then Date 0
      else if s = ''1970-01-02T00:00:00.000Z'' then Date 86400000
      else InvalidDate)"

text \<open>
Two stations, X at 1.899 and Y at 1.879 for diesel, one point each on a Wednesday morning.
\<close>

definition stationX :: station where
  "stationX = \<lparr>station_id = ''X'', name = ''Station X'', address = ''Hauptstrasse 1''\<rparr>"

definition stationY :: station where
  "stationY = \<lparr>station_id = ''Y'', name = ''Station Y'', address = ''Bahnhofstrasse 2''\<rparr>"

definition dieselRow :: "string \<Rightarrow> real option \<Rightarrow> priceRow" where
  "dieselRow t p = \<lparr>last_transmission = t, price_diesel = p, price_super = None, price_super_e10 = None\<rparr>"

definition exampleData :: "stationData list" where
  "exampleData =
     [\<lparr>station = stationX, data = [dieselRow ''2024-05-01T08:00:00'' (Some 1.899)]\<rparr>,
      \<lparr>station = stationY, data = [dieselRow ''2024-05-01T09:00:00'' (Some 1.879)]\<rparr>]"

definition exampleState :: state where
  "exampleState = \<lparr>selectedStations = [stationX, stationY], selectedFuelTypes = [''price_diesel''],
                   selectedTimeRange = TRString ''all''\<rparr>"

definition exampleLocalTime :: "string \<Rightarrow> (nat \<times> nat) option" where
  "exampleLocalTime t =
     (if t = ''2024-05-01T08:00:00'' then Some (3, 8)
      else if t = ''2024-05-01T09:00:00'' then Some (3, 9)
      else None)"

text \<open>
A service that fails for station X (status 500) and serves one row for any other station.
\<close>

definition exampleService :: "string \<Rightarrow> nat \<Rightarrow> priceRow response" where
  "exampleService stationId =
     (if stationId = ''X'' then (\<lambda>offset. Response 500 NotJson)
      else sqlService [dieselRow ''2024-05-01T09:00:00'' (Some 1.879)])"

text \<open>
A diesel point reported at 07:00 UTC on 1 May 2024.
\<close>

definition dieselAt :: "real \<Rightarrow> PriceRow" where
  "dieselAt p = \<lparr>ts = ''2024-05-01T07:00:00Z'', diesel = Some p, super = None, e10 = None\<rparr>"

text \<open>
  The arithmetic of the platform on finite doubles, for the examples. IEEE 754 rounds
  the exact result of an operation to the nearest double, and to the one with the even
  significand when two are equally near. \<open>roundEven\<close> is this rounding to an integer,
  \<open>pow2\<close> a power of two with an integer exponent, \<open>ulp x\<close> the spacing of the doubles
  around \<open>x\<close> (a significand of 53 bits; below \<open>2^-1022\<close> the spacing stays that of the
  smallest normal numbers), and \<open>nearest x\<close> the double nearest to \<open>x\<close>, when there is no
  overflow: \<open>nearest 1.1\<close> is the double that the text \<^verbatim>\<open>1.1\<close> denotes, in a program
  and in JSON.
\<close>

definition roundEven :: "real \<Rightarrow> int" where
  "roundEven x =
     (let f = \<lfloor>x\<rfloor>; d = x - of_int f
      in if d < 1 / 2 then f else if 1 / 2 < d then f + 1 else if even f then f else f + 1)"

definition pow2 :: "int \<Rightarrow> real" where
  "pow2 e = (if 0 \<le> e then 2 ^ nat e else 1 / 2 ^ nat (- e))"

definition ulp :: "real \<Rightarrow> real" where
  "ulp x = pow2 (max \<lfloor>log 2 \<bar>x\<bar>\<rfloor> (- 1022) - 52)"

definition nearest :: "real \<Rightarrow> real" where
  "nearest x = (if x = 0 then 0 else of_int (roundEven (x / ulp x)) * ulp x)"

text \<open>
  The rounded result as a number: a magnitude of \<open>2^1024\<close> after rounding is an overflow
  and gives an infinity.
\<close>

definition round64 :: "real \<Rightarrow> number" where
  "round64 x =
     (let r = nearest x
      in if 2 ^ 1024 \<le> r then Infinity else if r \<le> - (2 ^ 1024) then NegInfinity else Num r)"

text \<open>
  The operations on finite operands (and a divisor that is not 0), which is all the
  examples use: each is the exact result, rounded, and so is \<^verbatim>\<open>Math.sqrt\<close>. On
  other operands the definitions say NaN, which need not be what the platform gives; no
  example comes there. The standard leaves the precision of \<^verbatim>\<open>**\<close> to the
  implementation; the program only squares, the square is taken as the rounded product,
  and no example depends on it.
\<close>

fun doubleSum :: "number \<Rightarrow> number \<Rightarrow> number" where
  "doubleSum (Num a) (Num b) = round64 (a + b)"
| "doubleSum _ _ = NaN"

fun doubleDifference :: "number \<Rightarrow> number \<Rightarrow> number" where
  "doubleDifference (Num a) (Num b) = round64 (a - b)"
| "doubleDifference _ _ = NaN"

fun doubleProduct :: "number \<Rightarrow> number \<Rightarrow> number" where
  "doubleProduct (Num a) (Num b) = round64 (a * b)"
| "doubleProduct _ _ = NaN"

fun doubleQuotient :: "number \<Rightarrow> number \<Rightarrow> number" where
  "doubleQuotient (Num a) (Num b) = (if b = 0 then NaN else round64 (a / b))"
| "doubleQuotient _ _ = NaN"

fun doubleSquare :: "number \<Rightarrow> number \<Rightarrow> number" where
  "doubleSquare (Num a) (Num b) = (if b = 2 then round64 (a * a) else NaN)"
| "doubleSquare _ _ = NaN"

fun doubleRoot :: "number \<Rightarrow> number" where
  "doubleRoot (Num a) = (if a < 0 then NaN else round64 (sqrt a))"
| "doubleRoot _ = NaN"

definition doubleArith :: arith where
  "doubleArith = \<lparr>fadd = doubleSum, fsub = doubleDifference, fmul = doubleProduct, fdiv = doubleQuotient,
                   fpow = doubleSquare, fsqrt = doubleRoot, literal = round64\<rparr>"

text \<open>
  Local times of three instants: two on a Wednesday in the hour from 8, one on the
  Thursday after it in the hour from 9.
\<close>

definition twoDays :: "string \<Rightarrow> (nat \<times> nat) option" where
  "twoDays t =
     (if t = ''2024-05-01T08:00:00'' then Some (3, 8)
      else if t = ''2024-05-01T08:30:00'' then Some (3, 8)
      else if t = ''2024-05-02T09:00:00'' then Some (4, 9)
      else None)"

chapter \<open>The fuel-price dashboard: verification\<close>

section \<open>Pagination\<close>

lemma PAGE_SIZE_pos: "0 < PAGE_SIZE" by (simp add: PAGE_SIZE_def)

lemma length_page: "length (page rows offset) = min PAGE_SIZE (length rows - offset)"
  by (simp add: page_def)

lemma fetchLoop_sql_short:
  assumes "length rows - offset < PAGE_SIZE"
  shows "fetchLoop (sqlService rows) acc offset lg = Some (Inr (acc @ drop offset rows), lg @ [offset])"
proof -
  have "page rows offset = drop offset rows" using assms by (simp add: page_def)
  moreover have "length (drop offset rows) < PAGE_SIZE" using assms by simp
  ultimately show ?thesis
    by (subst fetchLoop.simps) (simp add: sqlService_def ok_def Let_def)
qed

lemma fetchLoop_sql_full:
  assumes "PAGE_SIZE \<le> length rows - offset"
  shows "fetchLoop (sqlService rows) acc offset lg =
         fetchLoop (sqlService rows) (acc @ page rows offset) (offset + PAGE_SIZE) (lg @ [offset])"
proof -
  have "length (page rows offset) = PAGE_SIZE" using assms by (simp add: length_page)
  then show ?thesis using PAGE_SIZE_pos
    by (subst fetchLoop.simps) (simp add: sqlService_def ok_def Let_def)
qed

lemma offsets_step:
  "offset # map (\<lambda>i. offset + PAGE_SIZE + i * PAGE_SIZE) [0..<n] = map (\<lambda>i. offset + i * PAGE_SIZE) [0..<Suc n]"
proof -
  have "map (\<lambda>i. offset + i * PAGE_SIZE) [0..<Suc n] =
        (offset + 0 * PAGE_SIZE) # map (\<lambda>i. offset + i * PAGE_SIZE) (map Suc [0..<n])"
    by (simp only: upt_conv_Cons[of 0 "Suc n"] map_Suc_upt list.map)
  then show ?thesis by (simp add: comp_def add.assoc)
qed

text \<open>
  Against the service the loop returns: from any offset it collects the rest of the
  rows and requests the offsets \<open>offset, offset + PAGE_SIZE, ...\<close> up to the first short
  page. Induction on the number of rows still to fetch.
\<close>

lemma fetchLoop_sql:
  "fetchLoop (sqlService rows) acc offset lg =
     Some (Inr (acc @ drop offset rows),
           lg @ map (\<lambda>i. offset + i * PAGE_SIZE) [0..<Suc ((length rows - offset) div PAGE_SIZE)])"
proof (induction "length rows - offset" arbitrary: acc offset lg rule: less_induct)
  case less
  show ?case
  proof (cases "length rows - offset < PAGE_SIZE")
    case True
    then show ?thesis by (simp add: fetchLoop_sql_short)
  next
    case False
    then have full: "PAGE_SIZE \<le> length rows - offset" by simp
    have smaller: "length rows - (offset + PAGE_SIZE) < length rows - offset"
      using full PAGE_SIZE_pos by arith
    have d: "(length rows - offset) div PAGE_SIZE = Suc ((length rows - (offset + PAGE_SIZE)) div PAGE_SIZE)"
      using full PAGE_SIZE_pos by (simp add: le_div_geq)
    have rows_eq: "page rows offset @ drop (offset + PAGE_SIZE) rows = drop offset rows"
      unfolding page_def using append_take_drop_id[of PAGE_SIZE "drop offset rows"]
      by (simp add: add.commute)
    show ?thesis
      unfolding fetchLoop_sql_full[OF full] less.hyps[OF smaller] d
      using rows_eq offsets_step[of offset] by simp
  qed
qed

lemma ceil_div_between:
  assumes "0 < p" and "k * p < m" and "m \<le> Suc k * p"
  shows "\<lceil>real m / real p\<rceil> = int (Suc k)"
proof (rule ceiling_unique)
  have "real (k * p) < real m" using assms(2) by (simp only: of_nat_less_iff)
  then have "real k < real m / real p" using assms(1) by (simp add: pos_less_divide_eq)
  then show "of_int (int (Suc k)) - 1 < real m / real p" by simp
  have "real m \<le> real (Suc k * p)" using assms(3) by (simp only: of_nat_le_iff)
  then have "real m / real p \<le> real (Suc k)" using assms(1) by (simp add: pos_divide_le_eq algebra_simps)
  then show "real m / real p \<le> of_int (int (Suc k))" by simp
qed

lemma request_count:
  assumes "0 < p"
  shows "int (Suc (n div p)) = (if p dvd n then \<lceil>real (n + 1) / real p\<rceil> else \<lceil>real n / real p\<rceil>)"
proof (cases "p dvd n")
  case True
  then have e: "n div p * p = n" by simp
  have "n div p * p < n + 1" using e by simp
  moreover have "n + 1 \<le> Suc (n div p) * p" using e assms by simp
  ultimately show ?thesis using True ceil_div_between[OF assms, of "n div p" "n + 1"] by simp
next
  case False
  then have "n mod p \<noteq> 0" by (simp add: dvd_eq_mod_eq_0)
  then have "n div p * p < n" using div_mult_mod_eq[of n p] by arith
  moreover have "n \<le> Suc (n div p) * p"
  proof -
    have "n div p * p + n mod p \<le> n div p * p + p"
      by (intro add_left_mono less_imp_le mod_less_divisor assms)
    then have "n \<le> n div p * p + p" by (simp only: div_mult_mod_eq)
    then show ?thesis by simp
  qed
  ultimately show ?thesis using False ceil_div_between[OF assms, of "n div p" n] by simp
qed

lemma concat_pages: "concat (map (\<lambda>i. page rows (i * PAGE_SIZE)) [0..<n]) = take (n * PAGE_SIZE) rows"
proof (induction n)
  case 0
  show ?case by simp
next
  case (Suc n)
  have "take (n * PAGE_SIZE) rows @ page rows (n * PAGE_SIZE) = take (n * PAGE_SIZE + PAGE_SIZE) rows"
    by (simp add: page_def take_add)
  then show ?case using Suc by (simp add: add.commute)
qed

lemma page_short_iff:
  assumes "i \<le> length rows div PAGE_SIZE"
  shows "(length (page rows (i * PAGE_SIZE)) < PAGE_SIZE) = (i = length rows div PAGE_SIZE)"
proof (cases "i = length rows div PAGE_SIZE")
  case True
  have "length rows - length rows div PAGE_SIZE * PAGE_SIZE = length rows mod PAGE_SIZE"
    by (simp add: minus_div_mult_eq_mod)
  then show ?thesis using True PAGE_SIZE_pos by (simp add: length_page)
next
  case False
  then have "Suc i \<le> length rows div PAGE_SIZE" using assms by simp
  then have "Suc i * PAGE_SIZE \<le> length rows div PAGE_SIZE * PAGE_SIZE" by (rule mult_le_mono1)
  also have "\<dots> \<le> length rows" by simp
  finally have "PAGE_SIZE \<le> length rows - i * PAGE_SIZE" by simp
  then show ?thesis using False by (simp add: length_page)
qed

text \<open>
  Claim C1. For a query that yields exactly the rows \<open>rows\<close> (N of them), with page
  size P = 1000, \<^verbatim>\<open>fetchPaginatedData\<close> returns, and returns exactly \<open>rows\<close> in their
  order. It issues \<open>ceil((N+1)/P)\<close> requests when P divides N and \<open>ceil(N/P)\<close>
  otherwise, at the offsets 0, P, 2P, ...; every page but the last is full and the last
  one, the only one shorter than P (empty when P divides N), ends the loop; the pages
  requested, concatenated, are \<open>rows\<close>.
\<close>

theorem fetchPaginatedData_pagination:
  "\<exists>requested.
     fetchPaginatedData (sqlService rows) = Some (Inr rows, requested) \<and>
     int (length requested) =
       (if PAGE_SIZE dvd length rows then \<lceil>real (length rows + 1) / real PAGE_SIZE\<rceil>
        else \<lceil>real (length rows) / real PAGE_SIZE\<rceil>) \<and>
     requested = map (\<lambda>i. i * PAGE_SIZE) [0..<length requested] \<and>
     (\<forall>i<length requested.
        (length (page rows (requested ! i)) < PAGE_SIZE) = (Suc i = length requested)) \<and>
     concat (map (page rows) requested) = rows"
proof -
  define k where "k = length rows div PAGE_SIZE"
  define requested where "requested = map (\<lambda>i. i * PAGE_SIZE) [0..<Suc k]"
  have len: "length requested = Suc k" by (simp add: requested_def)
  have run: "fetchPaginatedData (sqlService rows) = Some (Inr rows, requested)"
    unfolding fetchPaginatedData_def fetchLoop_sql requested_def k_def by simp
  have count: "int (length requested) =
       (if PAGE_SIZE dvd length rows then \<lceil>real (length rows + 1) / real PAGE_SIZE\<rceil>
        else \<lceil>real (length rows) / real PAGE_SIZE\<rceil>)"
    unfolding len k_def by (rule request_count[OF PAGE_SIZE_pos])
  have offs: "requested = map (\<lambda>i. i * PAGE_SIZE) [0..<length requested]"
    unfolding len by (simp only: requested_def)
  have short: "(length (page rows (requested ! i)) < PAGE_SIZE) = (Suc i = length requested)"
    if "i < length requested" for i
  proof -
    have i: "i \<le> k" using that len by simp
    have "requested ! i = i * PAGE_SIZE"
      unfolding requested_def using i by (simp only: nth_map_upt[of i "Suc k" 0]) simp
    then show ?thesis using page_short_iff[of i rows] i len by (simp add: k_def)
  qed
  have "length rows < Suc k * PAGE_SIZE"
    unfolding k_def using PAGE_SIZE_pos by (simp add: dividend_less_div_times)
  then have cat: "concat (map (page rows) requested) = rows"
    unfolding requested_def using concat_pages[of rows "Suc k"] by (simp add: comp_def)
  show ?thesis using run count offs short cat by blast
qed

text \<open>
  Three rows: one request, at offset 0, and the three rows come back. A thousand rows:
  two requests, at the offsets 0 and 1000, the second one answered by an empty page.
\<close>

theorem fetchPaginatedData_pagination_witness:
  "fetchPaginatedData (sqlService [1, 2, 3 :: nat]) = Some (Inr [1, 2, 3], [0]) \<and>
   fetchPaginatedData (sqlService (replicate 1000 (7 :: nat))) = Some (Inr (replicate 1000 7), [0, 1000])"
proof -
  obtain requested where
    run: "fetchPaginatedData (sqlService [1, 2, 3 :: nat]) = Some (Inr [1, 2, 3], requested)" and
    count: "int (length requested) =
       (if PAGE_SIZE dvd length [1, 2, 3 :: nat] then \<lceil>real (length [1, 2, 3 :: nat] + 1) / real PAGE_SIZE\<rceil>
        else \<lceil>real (length [1, 2, 3 :: nat]) / real PAGE_SIZE\<rceil>)" and
    offs: "requested = map (\<lambda>i. i * PAGE_SIZE) [0..<length requested]"
    using fetchPaginatedData_pagination[of "[1, 2, 3 :: nat]"] by blast
  have l: "length [1, 2, 3 :: nat] = 3" by simp
  have nd: "\<not> PAGE_SIZE dvd 3" unfolding PAGE_SIZE_def by simp
  have c: "\<lceil>real 3 / real PAGE_SIZE\<rceil> = 1" unfolding PAGE_SIZE_def by simp
  have "length requested = 1" using count unfolding l using nd c by simp
  then have "requested = [0]" using offs by simp
  then have short: "fetchPaginatedData (sqlService [1, 2, 3 :: nat]) = Some (Inr [1, 2, 3], [0])"
    using run by simp
  obtain requested' where
    run': "fetchPaginatedData (sqlService (replicate 1000 (7 :: nat))) = Some (Inr (replicate 1000 7), requested')" and
    count': "int (length requested') =
       (if PAGE_SIZE dvd length (replicate 1000 (7 :: nat))
        then \<lceil>real (length (replicate 1000 (7 :: nat)) + 1) / real PAGE_SIZE\<rceil>
        else \<lceil>real (length (replicate 1000 (7 :: nat))) / real PAGE_SIZE\<rceil>)" and
    offs': "requested' = map (\<lambda>i. i * PAGE_SIZE) [0..<length requested']"
    using fetchPaginatedData_pagination[of "replicate 1000 (7 :: nat)"] by blast
  have l': "length (replicate 1000 (7 :: nat)) = PAGE_SIZE" by (simp add: PAGE_SIZE_def)
  have c': "\<lceil>real (PAGE_SIZE + 1) / real PAGE_SIZE\<rceil> = 2" unfolding PAGE_SIZE_def by simp
  have "length requested' = 2" using count' unfolding l' using c' by simp
  then have "requested' = [0, 1000]" using offs' by (simp add: PAGE_SIZE_def upt_rec numeral_eq_Suc)
  then show ?thesis using short run' by simp
qed

section \<open>Selection\<close>

text \<open>
  The two mutations keep a selection free of duplicate ids: adding a station whose id
  is selected changes nothing and otherwise appends it; removing an id that is not
  selected changes nothing, and on a selection without duplicates removing a selected id
  deletes exactly that station and keeps the others in their order.
\<close>

lemma find_None_ids: "(find (\<lambda>t. station_id t = i) xs = None) = (i \<notin> station_id ` set xs)"
  by (auto simp: find_None_iff)

lemma handleResultClick_noDuplicateIds:
  "noDuplicateIds st \<Longrightarrow> noDuplicateIds (handleResultClick st s)"
  by (simp add: noDuplicateIds_def handleResultClick_def find_None_ids)

lemma removeStation_noDuplicateIds:
  "noDuplicateIds st \<Longrightarrow> noDuplicateIds (removeStation st i)"
  by (simp add: noDuplicateIds_def removeStation_def distinct_map_filter)

lemma mutate_noDuplicateIds: "noDuplicateIds st \<Longrightarrow> noDuplicateIds (mutate st m)"
  by (cases m) (simp_all add: handleResultClick_noDuplicateIds removeStation_noDuplicateIds)

lemma foldl_mutate_noDuplicateIds: "noDuplicateIds st \<Longrightarrow> noDuplicateIds (foldl mutate st ms)"
  by (induction ms arbitrary: st) (simp_all add: mutate_noDuplicateIds)

lemma removeStation_exactly:
  assumes "distinct (map station_id (xs @ t # ys))"
  shows "filter (\<lambda>s. station_id s \<noteq> station_id t) (xs @ t # ys) = xs @ ys"
proof -
  have "\<forall>s \<in> set xs \<union> set ys. station_id s \<noteq> station_id t"
    using assms by (force simp: image_iff)
  then show ?thesis by (simp add: filter_id_conv)
qed

lemma removeStation_absent:
  assumes "i \<notin> station_id ` set (selectedStations st)"
  shows "removeStation st i = st"
proof -
  have "filter (\<lambda>s. station_id s \<noteq> i) (selectedStations st) = selectedStations st"
    using assms by (auto simp: filter_id_conv)
  then show ?thesis by (simp add: removeStation_def)
qed

lemma removeStation_one:
  assumes "noDuplicateIds st" and "selectedStations st = xs @ t # ys"
  shows "selectedStations (removeStation st (station_id t)) = xs @ ys"
  using assms removeStation_exactly[of xs t ys] by (simp add: removeStation_def noDuplicateIds_def)

lemma handleResultClick_present:
  "station_id s \<in> station_id ` set (selectedStations st) \<Longrightarrow> handleResultClick st s = st"
  by (simp add: handleResultClick_def find_None_ids)

lemma handleResultClick_appends:
  "station_id s \<notin> station_id ` set (selectedStations st) \<Longrightarrow>
     selectedStations (handleResultClick st s) = selectedStations st @ [s]"
  by (simp add: handleResultClick_def find_None_ids)

text \<open>
  Claim C8. The selection is said never to hold two stations with the same external
  id, and \<^verbatim>\<open>removeStation\<close> to remove exactly the station with the given id. The
  program does not keep this: the selection that \<^verbatim>\<open>initializeApp\<close> restores is not
  deduplicated, although \<^verbatim>\<open>handleResultClick\<close> checks for the id before it adds. With
  the stations X and Y in the directory and the address \<^verbatim>\<open>?stations=X,X\<close>, whatever
  is stored, the restored selection is X twice, and so it is with no state in the address
  and the ids X, X stored; this selection holds a duplicate id, and removing X from it
  deletes both entries.
\<close>

theorem restore_installs_duplicates:
  "restoredStations parseDate [stationX, stationY] \<lparr>stations = Some ''X,X'', fuels = None, time = None\<rparr> savedIds
     = [stationX, stationX] \<and>
   restoredStations parseDate [stationX, stationY] \<lparr>stations = None, fuels = None, time = None\<rparr> [''X'', ''X'']
     = [stationX, stationX] \<and>
   \<not> noDuplicateIds (exampleState\<lparr>selectedStations := [stationX, stationX]\<rparr>) \<and>
   selectedStations (removeStation (exampleState\<lparr>selectedStations := [stationX, stationX]\<rparr>) ''X'') = []"
  by (simp add: restoredStations_def loadStateFromUrl_def truthyParam_def loadSelectedStations_def
        List.map_filter_def noDuplicateIds_def removeStation_def stationX_def stationY_def)

section \<open>Time window round trip\<close>

lemma jsSplit_nonempty: "jsSplit sep s \<noteq> []"
  by (induction s) (auto split: list.splits)

lemma jsSplit_no_sep: "sep \<notin> set s \<Longrightarrow> jsSplit sep s = [s]"
  by (induction s) auto

lemma jsSplit_append:
  "sep \<notin> set a \<Longrightarrow> jsSplit sep (a @ sep # b) = a # jsSplit sep b"
  by (induction a) auto

lemma jsSplit_pair:
  "sep \<notin> set a \<Longrightarrow> sep \<notin> set b \<Longrightarrow> jsSplit sep (a @ [sep] @ b) = [a, b]"
  by (simp add: jsSplit_append jsSplit_no_sep)

lemma jsSplit_two_has_sep: "jsSplit sep s = a # b # rest \<Longrightarrow> sep \<in> set s"
  using jsSplit_no_sep[of sep s] by auto

lemma parseRange_round_trip:
  assumes "parseDate (isoOf t0) = Date t0" "parseDate (isoOf t1) = Date t1"
    and "CHR '';'' \<notin> set (isoOf t0)" "CHR '';'' \<notin> set (isoOf t1)"
  shows "parseRange parseDate (isoOf t0 @ '';'' @ isoOf t1) = Some (TRObject (Date t0) (Date t1))"
  using assms jsSplit_pair[of "CHR '';''" "isoOf t0" "isoOf t1"]
  by (simp add: parseRange_def isNaN_def)

lemma parseRange_invalid:
  assumes "jsSplit CHR '';'' saved = a # b # rest"
    and "parseDate a = InvalidDate \<or> parseDate b = InvalidDate"
  shows "parseRange parseDate saved = None"
  using assms by (auto simp: parseRange_def isNaN_def Let_def)

lemma preset_has_no_semicolon:
  assumes "CHR '';'' \<in> set v"
  shows "v \<noteq> ''all''" "v \<noteq> ''1d''" "v \<noteq> ''7d''" "v \<noteq> ''14d''" "v \<noteq> []"
  using assms by auto

text \<open>
  Claim C3, as amended. Where \<^verbatim>\<open>new Date\<close> reads back the ISO texts of the two
  instants and these texts hold no semicolon (as ISO texts do), an explicit range is stored
  as \<open>start;end\<close> and both the stored value and the address bar deserialize to the same
  range, to the millisecond. A stored or URL-encoded pair of which either side is no valid
  date never raises and never becomes an explicit range: the value stays the string as
  it was stored (not \<^verbatim>\<open>'all'\<close>), and the display filter leaves the data unfiltered for
  such a string, as it does for \<^verbatim>\<open>'all'\<close>.
\<close>

theorem timeRange_deserialization:
  "(parseDate (isoOf t0) = Date t0 \<and> parseDate (isoOf t1) = Date t1 \<and>
    CHR '';'' \<notin> set (isoOf t0) \<and> CHR '';'' \<notin> set (isoOf t1) \<longrightarrow>
      saveSelectedTimeRange isoOf (st\<lparr>selectedTimeRange := TRObject (Date t0) (Date t1)\<rparr>)
        = Inr (isoOf t0 @ '';'' @ isoOf t1) \<and>
      loadSelectedTimeRange parseDate (Some (isoOf t0 @ '';'' @ isoOf t1)) = TRObject (Date t0) (Date t1) \<and>
      (\<exists>u. updateUrlWithState isoOf (st\<lparr>selectedTimeRange := TRObject (Date t0) (Date t1)\<rparr>) = Inr u \<and>
           time u = Some (isoOf t0 @ '';'' @ isoOf t1) \<and>
           restoredTimeRange parseDate u item = TRObject (Date t0) (Date t1))) \<and>
   (jsSplit CHR '';'' saved = a # b # rest \<and> (parseDate a = InvalidDate \<or> parseDate b = InvalidDate) \<longrightarrow>
      loadSelectedTimeRange parseDate (Some saved) = TRString saved \<and>
      restoredTimeRange parseDate \<lparr>stations = ids, fuels = fs, time = Some saved\<rparr> item = TRString saved \<and>
      filterDataByTimeRange parseDate daysAgo priceData (TRString saved) = priceData \<and>
      filterDataByTimeRange parseDate daysAgo priceData (TRString ''all'') = priceData)"
proof (intro conjI impI)
  assume h: "parseDate (isoOf t0) = Date t0 \<and> parseDate (isoOf t1) = Date t1 \<and>
    CHR '';'' \<notin> set (isoOf t0) \<and> CHR '';'' \<notin> set (isoOf t1)"
  let ?v = "isoOf t0 @ '';'' @ isoOf t1"
  let ?st = "st\<lparr>selectedTimeRange := TRObject (Date t0) (Date t1)\<rparr>"
  have pr: "parseRange parseDate ?v = Some (TRObject (Date t0) (Date t1))"
    using h by (intro parseRange_round_trip) simp_all
  have semi: "CHR '';'' \<in> set ?v" "?v \<noteq> []" by simp_all
  show "saveSelectedTimeRange isoOf ?st = Inr ?v"
    by (simp add: saveSelectedTimeRange_def)
  show "loadSelectedTimeRange parseDate (Some ?v) = TRObject (Date t0) (Date t1)"
    using pr semi by (simp add: loadSelectedTimeRange_def)
  let ?u = "\<lparr>stations = (if length (selectedStations ?st) > 0
                           then Some (join '','' (map station_id (selectedStations ?st))) else None),
               fuels = Some (join '','' (selectedFuelTypes ?st)),
               time = Some ?v\<rparr>"
  have "updateUrlWithState isoOf ?st = Inr ?u"
    by (simp add: updateUrlWithState_def)
  moreover have "restoredTimeRange parseDate ?u item = TRObject (Date t0) (Date t1)"
    using pr semi by (simp add: restoredTimeRange_def loadStateFromUrl_def truthyParam_def)
  ultimately show "\<exists>u. updateUrlWithState isoOf ?st = Inr u \<and> time u = Some ?v \<and>
           restoredTimeRange parseDate u item = TRObject (Date t0) (Date t1)"
    by simp
next
  assume h: "jsSplit CHR '';'' saved = a # b # rest \<and> (parseDate a = InvalidDate \<or> parseDate b = InvalidDate)"
  then have semi: "CHR '';'' \<in> set saved" using jsSplit_two_has_sep by blast
  have pr: "parseRange parseDate saved = None" using h parseRange_invalid by blast
  note ne = preset_has_no_semicolon[OF semi]
  show "loadSelectedTimeRange parseDate (Some saved) = TRString saved"
    using pr semi ne by (simp add: loadSelectedTimeRange_def)
  show "restoredTimeRange parseDate \<lparr>stations = ids, fuels = fs, time = Some saved\<rparr> item = TRString saved"
    using pr semi ne by (simp add: restoredTimeRange_def loadStateFromUrl_def truthyParam_def)
  show "filterDataByTimeRange parseDate daysAgo priceData (TRString saved) = priceData"
    using ne by (simp add: filterDataByTimeRange_def)
next
  show "filterDataByTimeRange parseDate daysAgo priceData (TRString ''all'') = priceData"
    by (simp add: filterDataByTimeRange_def)
qed

text \<open>
  The two example instants round-trip; a pair whose first side is \<^verbatim>\<open>gestern\<close> comes
  back as the string it was.
\<close>

theorem timeRange_deserialization_witness:
  "saveSelectedTimeRange exampleISO (initialState\<lparr>selectedTimeRange := TRObject (Date 0) (Date 86400000)\<rparr>)
     = Inr ''1970-01-01T00:00:00.000Z;1970-01-02T00:00:00.000Z'' \<and>
   loadSelectedTimeRange exampleParse (Some ''1970-01-01T00:00:00.000Z;1970-01-02T00:00:00.000Z'')
     = TRObject (Date 0) (Date 86400000) \<and>
   loadSelectedTimeRange exampleParse (Some ''gestern;1970-01-02T00:00:00.000Z'')
     = TRString ''gestern;1970-01-02T00:00:00.000Z'' \<and>
   restoredTimeRange exampleParse \<lparr>stations = None, fuels = None, time = Some ''gestern;1970-01-02T00:00:00.000Z''\<rparr> None
     = TRString ''gestern;1970-01-02T00:00:00.000Z''"
  using timeRange_deserialization[of exampleParse exampleISO 0 86400000 initialState None
          "''gestern;1970-01-02T00:00:00.000Z''" "''gestern''" "''1970-01-02T00:00:00.000Z''" "[]" None None
          "\<lambda>n. InvalidDate" "[]"]
  by (simp add: exampleISO_def exampleParse_def)

text \<open>
  The claim as stated fails: the second side of this stored pair is no date, and the
  loader returns the stored string, which is not the preset \<^verbatim>\<open>'all'\<close>.
\<close>

theorem timeRange_invalid_pair_counterexample:
  "exampleParse ''gestern'' = InvalidDate \<and>
   loadSelectedTimeRange exampleParse (Some ''1970-01-01T00:00:00.000Z;gestern'')
     = TRString ''1970-01-01T00:00:00.000Z;gestern'' \<and>
   loadSelectedTimeRange exampleParse (Some ''1970-01-01T00:00:00.000Z;gestern'') \<noteq> TRString ''all''"
  by (simp add: loadSelectedTimeRange_def parseRange_def exampleParse_def isNaN_def)

section \<open>First minimum and first maximum\<close>

lemma isFirstMin_snoc_keep:
  assumes "isFirstMin vs i p" and "v = None \<or> (\<exists>q. v = Some q \<and> p \<le> q)"
  shows "isFirstMin (vs @ [v]) i p"
  using assms unfolding isFirstMin_def
  by (auto simp: nth_append less_Suc_eq)

lemma isFirstMin_snoc_less:
  assumes "isFirstMin vs i p" and "q < p"
  shows "isFirstMin (vs @ [Some q]) (length vs) q"
  using assms unfolding isFirstMin_def
  by (fastforce simp: nth_append less_Suc_eq)

lemma isFirstMin_snoc_first:
  assumes "\<forall>v\<in>set vs. v = None"
  shows "isFirstMin (vs @ [Some q]) (length vs) q"
  using assms unfolding isFirstMin_def
  by (auto simp: nth_append less_Suc_eq all_set_conv_all_nth)

lemma isFirstMax_snoc_keep:
  assumes "isFirstMax vs i p" and "v = None \<or> (\<exists>q. v = Some q \<and> q \<le> p)"
  shows "isFirstMax (vs @ [v]) i p"
  using assms unfolding isFirstMax_def
  by (auto simp: nth_append less_Suc_eq)

lemma isFirstMax_snoc_greater:
  assumes "isFirstMax vs i p" and "p < q"
  shows "isFirstMax (vs @ [Some q]) (length vs) q"
  using assms unfolding isFirstMax_def
  by (fastforce simp: nth_append less_Suc_eq)

lemma isFirstMax_snoc_first:
  assumes "\<forall>v\<in>set vs. v = None"
  shows "isFirstMax (vs @ [Some q]) (length vs) q"
  using assms unfolding isFirstMax_def
  by (auto simp: nth_append less_Suc_eq all_set_conv_all_nth)

section \<open>Cheapest station\<close>

lemma findCheapest_step_skip:
  assumes "\<not> truthy (latest fuelKey sd)"
  shows "findCheapest_step fuelKey c sd = c"
  using assms by (auto simp: findCheapest_step_def latest_def truthy_def split: option.splits)

lemma findCheapest_step_priced:
  assumes "latest fuelKey sd = Some p" and "p \<noteq> 0"
  shows "findCheapest_step fuelKey c sd = (if lt (Num p) (snd c) then (Some (station sd), Num p) else c)"
  using assms by (auto simp: findCheapest_step_def latest_def split: option.splits if_splits)

lemma fold_result_some:
  assumes "\<not> (\<forall>v\<in>set vs. v = None)" and "c = (Some (station (arr ! i)), Num p)" and "isFirstMin vs i p"
  shows "(if \<forall>v\<in>set vs. v = None then c = (None, Infinity)
          else \<exists>i p. c = (Some (station (arr ! i)), Num p) \<and> isFirstMin vs i p)"
  using assms(2,3) by (simp only: assms(1) if_False) blast

text \<open>
  The loop invariant, by induction on the stations processed so far (the list grows at
  its end): nothing found yet, or the first minimum of the prices compared.
\<close>

lemma findCheapest_fold:
  "(if \<forall>v\<in>set (candidates fuelKey arr). v = None
    then foldl (findCheapest_step fuelKey) (None, Infinity) arr = (None, Infinity)
    else \<exists>i p. foldl (findCheapest_step fuelKey) (None, Infinity) arr = (Some (station (arr ! i)), Num p) \<and>
               isFirstMin (candidates fuelKey arr) i p)"
proof (induction arr rule: rev_induct)
  case Nil
  show ?case by (simp add: candidates_def)
next
  case (snoc sd arr)
  let ?c = "foldl (findCheapest_step fuelKey) (None, Infinity) arr"
  let ?c' = "foldl (findCheapest_step fuelKey) (None, Infinity) (arr @ [sd])"
  let ?vs = "candidates fuelKey arr"
  let ?vs' = "candidates fuelKey (arr @ [sd])"
  have cs: "?vs' = ?vs @ [if truthy (latest fuelKey sd) then latest fuelKey sd else None]"
    by (simp add: candidates_def)
  have len: "length ?vs = length arr" by (simp add: candidates_def)
  have nth_new: "(arr @ [sd]) ! length ?vs = sd" by (simp add: len)
  show ?case
  proof (cases "truthy (latest fuelKey sd)")
    case False
    then have step: "?c' = ?c"
      by (simp add: findCheapest_step_skip)
    have cs': "?vs' = ?vs @ [None]" using cs False by simp
    show ?thesis
    proof (cases "\<forall>v\<in>set ?vs. v = None")
      case True
      then have "?c = (None, Infinity)" using snoc by simp
      moreover have "\<forall>v\<in>set ?vs'. v = None" using True cs' by simp
      ultimately show ?thesis using step by simp
    next
      case nonempty: False
      then have "\<exists>i p. ?c = (Some (station (arr ! i)), Num p) \<and> isFirstMin ?vs i p"
        using snoc by (simp only: if_False)
      then obtain i p where c: "?c = (Some (station (arr ! i)), Num p)" and m: "isFirstMin ?vs i p"
        by blast
      have "i < length arr" using m len by (simp add: isFirstMin_def)
      then have "(arr @ [sd]) ! i = arr ! i" by (simp add: nth_append)
      then have "?c' = (Some (station ((arr @ [sd]) ! i)), Num p)" using step c by simp
      moreover have "isFirstMin ?vs' i p" unfolding cs' using m by (rule isFirstMin_snoc_keep) simp
      moreover have "\<not> (\<forall>v\<in>set ?vs'. v = None)" using nonempty cs' by simp
      ultimately show ?thesis by (intro fold_result_some)
    qed
  next
    case True
    then obtain q where q: "latest fuelKey sd = Some q" "q \<noteq> 0" by (auto simp: truthy_def)
    have step: "?c' = (if lt (Num q) (snd ?c) then (Some (station sd), Num q) else ?c)"
      using q by (simp add: findCheapest_step_priced)
    have cs': "?vs' = ?vs @ [Some q]" using cs True q by simp
    have some: "\<not> (\<forall>v\<in>set ?vs'. v = None)" using cs' by simp
    show ?thesis
    proof (cases "\<forall>v\<in>set ?vs. v = None")
      case True
      then have "?c = (None, Infinity)" using snoc by simp
      then have "?c' = (Some (station ((arr @ [sd]) ! length ?vs)), Num q)"
        using step nth_new by simp
      moreover have "isFirstMin ?vs' (length ?vs) q"
        unfolding cs' using True by (rule isFirstMin_snoc_first)
      ultimately show ?thesis using some by (intro fold_result_some)
    next
      case nonempty: False
      then have "\<exists>i p. ?c = (Some (station (arr ! i)), Num p) \<and> isFirstMin ?vs i p"
        using snoc by (simp only: if_False)
      then obtain i p where c: "?c = (Some (station (arr ! i)), Num p)" and m: "isFirstMin ?vs i p"
        by blast
      have i: "i < length arr" using m len by (simp add: isFirstMin_def)
      then have nth_old: "(arr @ [sd]) ! i = arr ! i" by (simp add: nth_append)
      show ?thesis
      proof (cases "q < p")
        case True
        then have "?c' = (Some (station ((arr @ [sd]) ! length ?vs)), Num q)"
          using step c nth_new by simp
        moreover have "isFirstMin ?vs' (length ?vs) q"
          unfolding cs' using m True by (rule isFirstMin_snoc_less)
        ultimately show ?thesis using some by (intro fold_result_some)
      next
        case False
        then have "?c' = (Some (station ((arr @ [sd]) ! i)), Num p)"
          using step c nth_old by simp
        moreover have "isFirstMin ?vs' i p"
          unfolding cs' using m by (rule isFirstMin_snoc_keep) (use False in simp)
        ultimately show ?thesis using some by (intro fold_result_some)
      qed
    qed
  qed
qed

text \<open>
  Claim C4. For series whose most recent values are never 0 (prices are positive or
  absent): \<^verbatim>\<open>findCheapest\<close> returns \<^verbatim>\<open>null\<close> when every station has no points or
  a null most recent value for the fuel; otherwise it returns a station whose last point
  has the least most recent value, with that value, and among equals the first in the
  order of the array.
\<close>

theorem findCheapest_most_recent_minimum:
  assumes "\<forall>sd\<in>set arr. latest fuelKey sd \<noteq> Some 0"
  shows "(if \<forall>sd\<in>set arr. latest fuelKey sd = None then findCheapest arr fuelKey = None
          else \<exists>i p. findCheapest arr fuelKey = Some (Some (station (arr ! i)), Num p) \<and>
                     isFirstMin (map (latest fuelKey) arr) i p)"
proof -
  have "candidates fuelKey arr = map (latest fuelKey) arr"
    unfolding candidates_def using assms by (intro map_cong) (auto simp: truthy_def)
  then show ?thesis
    using findCheapest_fold[of fuelKey arr]
    by (auto simp: findCheapest_def Let_def split: if_splits)
qed

text \<open>
Station X at 1.899 and station Y at 1.879 for diesel: Y at 1.879.
\<close>

theorem findCheapest_most_recent_minimum_witness:
  "findCheapest exampleData PriceDiesel = Some (Some stationY, Num 1.879)"
proof -
  have h: "\<forall>sd\<in>set exampleData. latest PriceDiesel sd \<noteq> Some 0"
    by (simp add: exampleData_def latest_def dieselRow_def)
  have l: "map (latest PriceDiesel) exampleData = [Some 1.899, Some 1.879]"
    by (simp add: exampleData_def latest_def dieselRow_def)
  have "\<not> (\<forall>sd\<in>set exampleData. latest PriceDiesel sd = None)"
    by (simp add: exampleData_def latest_def dieselRow_def)
  then have "\<exists>i p. findCheapest exampleData PriceDiesel = Some (Some (station (exampleData ! i)), Num p) \<and>
                 isFirstMin (map (latest PriceDiesel) exampleData) i p"
    using findCheapest_most_recent_minimum[OF h] by (simp only: if_False)
  then obtain i p where r: "findCheapest exampleData PriceDiesel = Some (Some (station (exampleData ! i)), Num p)"
    and m: "isFirstMin [Some 1.899, Some 1.879] i p"
    unfolding l by blast
  have "i < 2" using m by (simp add: isFirstMin_def)
  then consider "i = 0" | "i = 1" by linarith
  then have "i = 1 \<and> p = 1.879"
  proof cases
    case 1
    then have "p = 1.899" using m by (simp add: isFirstMin_def)
    moreover have "\<forall>j<length [Some 1.899, Some (1.879::real)]. \<forall>q. [Some 1.899, Some 1.879] ! j = Some q \<longrightarrow> p \<le> q"
      using m unfolding isFirstMin_def by blast
    from this[rule_format, of 1 "1.879"] have "p \<le> 1.879" by simp
    ultimately show ?thesis by simp
  next
    case 2
    then show ?thesis using m by (simp add: isFirstMin_def)
  qed
  then show ?thesis using r by (simp add: exampleData_def)
qed

section \<open>Chart alignment\<close>

lemma setAdd_set: "set (setAdd acc t) = insert t (set acc)"
  by (auto simp: setAdd_def)

lemma setAdd_distinct: "distinct acc \<Longrightarrow> distinct (setAdd acc t)"
  by (simp add: setAdd_def)

lemma rows_fold_set:
  "set (foldl (\<lambda>acc row. setAdd acc (last_transmission row)) acc rows) = set acc \<union> last_transmission ` set rows"
  by (induction rows arbitrary: acc) (auto simp: setAdd_set)

lemma rows_fold_distinct:
  "distinct acc \<Longrightarrow> distinct (foldl (\<lambda>acc row. setAdd acc (last_transmission row)) acc rows)"
  by (induction rows arbitrary: acc) (simp_all add: setAdd_distinct)

lemma stations_fold_set:
  "set (foldl (\<lambda>acc sd. foldl (\<lambda>acc row. setAdd acc (last_transmission row)) acc (data sd)) acc arr)
     = set acc \<union> timestampsOf arr"
  by (induction arr arbitrary: acc) (auto simp: rows_fold_set timestampsOf_def)

lemma stations_fold_distinct:
  "distinct acc \<Longrightarrow>
   distinct (foldl (\<lambda>acc sd. foldl (\<lambda>acc row. setAdd acc (last_transmission row)) acc (data sd)) acc arr)"
  by (induction arr arbitrary: acc) (simp_all add: rows_fold_distinct)

lemma allTimestamps_set: "set (allTimestamps arr) = timestampsOf arr"
  by (simp add: allTimestamps_def stations_fold_set)

lemma allTimestamps_distinct: "distinct (allTimestamps arr)"
  by (simp add: allTimestamps_def stations_fold_distinct)

lemma priceMap_fold:
  "foldl (\<lambda>m row. m(last_transmission row \<mapsto> price row fuelKey)) m rows t =
     (case find (\<lambda>row. last_transmission row = t) (rev rows) of
        None \<Rightarrow> m t
      | Some row \<Rightarrow> Some (price row fuelKey))"
  by (induction rows arbitrary: m rule: rev_induct) (auto split: option.splits)

lemma priceMap_reportedAt:
  "orNull (priceMap sd fuelKey t) = (if reportedAt sd fuelKey t = Some 0 then None else reportedAt sd fuelKey t)"
  by (auto simp: priceMap_def priceMap_fold reportedAt_def truthy_def split: option.splits)

lemma find_SomeD: "find P xs = Some x \<Longrightarrow> x \<in> set xs \<and> P x"
  by (induction xs) (auto split: if_splits)

lemma reportedAt_absent:
  assumes "t \<notin> last_transmission ` set (data sd)"
  shows "reportedAt sd fuelKey t = None"
proof -
  have "find (\<lambda>row. last_transmission row = t) (rev (data sd)) = None"
    using assms by (auto simp: find_None_iff)
  then show ?thesis by (simp add: reportedAt_def)
qed

lemma reportedAt_reported:
  assumes "reportedAt sd fuelKey t = Some p"
  shows "\<exists>row\<in>set (data sd). last_transmission row = t \<and> price row fuelKey = Some p"
proof (cases "find (\<lambda>row. last_transmission row = t) (rev (data sd))")
  case None
  then show ?thesis using assms by (simp add: reportedAt_def)
next
  case (Some r)
  then have "r \<in> set (data sd)" "last_transmission r = t"
    using find_SomeD[OF Some] by simp_all
  moreover have "price r fuelKey = Some p" using assms Some by (simp add: reportedAt_def)
  ultimately show ?thesis by blast
qed

lemma reportedAt_unique:
  assumes "distinct (map last_transmission (data sd))" and "row \<in> set (data sd)"
  shows "reportedAt sd fuelKey (last_transmission row) = price row fuelKey"
proof (cases "find (\<lambda>x. last_transmission x = last_transmission row) (rev (data sd))")
  case None
  then show ?thesis using assms(2) by (auto simp: find_None_iff)
next
  case (Some r)
  then have "r \<in> set (data sd)" "last_transmission r = last_transmission row"
    using find_SomeD[OF Some] by simp_all
  then have "r = row" using assms by (auto simp: distinct_map dest: inj_onD)
  then show ?thesis using Some by (simp add: reportedAt_def)
qed

text \<open>
  Claim C5. The labels are the timestamps of all stations' series, each once, in
  ascending order. The chart has one dataset per station and active fuel, in this order,
  and the value of a dataset at a label is the price that station reports at exactly that
  timestamp, or the gap marker when it reports none (or 0) there: a value is never 0, every
  value that is no gap is the price of a row of that station with exactly that timestamp,
  and a timestamp the station has no row for gives a gap. (With distinct timestamps in a
  series the reported price is that of the one row with the timestamp.)
\<close>

theorem chart_alignment:
  "sorted (sortedLabels (renderMultiStationChart st arr)) \<and>
   distinct (sortedLabels (renderMultiStationChart st arr)) \<and>
   set (sortedLabels (renderMultiStationChart st arr)) = timestampsOf arr \<and>
   datasets (renderMultiStationChart st arr) =
     concat (map (\<lambda>(sd, index). map (buildDataset (sortedLabels (renderMultiStationChart st arr)) sd index)
                                    (activeFuelTypes st))
                 (zip arr [0..<length arr])) \<and>
   dataPoints (buildDataset labels sd index fuel) =
     map (\<lambda>t. if reportedAt sd (key fuel) t = Some 0 then None else reportedAt sd (key fuel) t) labels \<and>
   (\<forall>v \<in> set (dataPoints (buildDataset labels sd index fuel)). v \<noteq> Some 0) \<and>
   (\<forall>k<length labels. \<forall>p. dataPoints (buildDataset labels sd index fuel) ! k = Some p \<longrightarrow>
      (\<exists>row\<in>set (data sd). last_transmission row = labels ! k \<and> price row (key fuel) = Some p)) \<and>
   (\<forall>row\<in>set (data sd). distinct (map last_transmission (data sd)) \<longrightarrow>
      reportedAt sd (key fuel) (last_transmission row) = price row (key fuel)) \<and>
   (\<forall>k<length labels. labels ! k \<notin> last_transmission ` set (data sd) \<longrightarrow>
      dataPoints (buildDataset labels sd index fuel) ! k = None)"
proof -
  let ?c = "renderMultiStationChart st arr"
  have l: "sortedLabels ?c = sort (allTimestamps arr)"
    by (simp add: renderMultiStationChart_def Let_def)
  have s1: "sorted (sortedLabels ?c)" unfolding l by simp
  have s2: "distinct (sortedLabels ?c)" unfolding l by (simp add: allTimestamps_distinct)
  have s3: "set (sortedLabels ?c) = timestampsOf arr" unfolding l by (simp add: allTimestamps_set)
  have s4: "datasets ?c =
     concat (map (\<lambda>(sd, index). map (buildDataset (sortedLabels ?c) sd index) (activeFuelTypes st))
                 (zip arr [0..<length arr]))"
    by (simp add: renderMultiStationChart_def Let_def)
  have s5: "dataPoints (buildDataset labels sd index fuel) =
     map (\<lambda>t. if reportedAt sd (key fuel) t = Some 0 then None else reportedAt sd (key fuel) t) labels"
    by (simp add: buildDataset_def priceMap_reportedAt)
  have s6: "\<forall>v \<in> set (dataPoints (buildDataset labels sd index fuel)). v \<noteq> Some 0"
    unfolding s5 by auto
  have s7: "\<forall>k<length labels. \<forall>p. dataPoints (buildDataset labels sd index fuel) ! k = Some p \<longrightarrow>
      (\<exists>row\<in>set (data sd). last_transmission row = labels ! k \<and> price row (key fuel) = Some p)"
  proof (intro allI impI)
    fix k p
    assume k: "k < length labels" and v: "dataPoints (buildDataset labels sd index fuel) ! k = Some p"
    have "reportedAt sd (key fuel) (labels ! k) = Some p"
      using k v unfolding s5 by (simp split: if_splits)
    then show "\<exists>row\<in>set (data sd). last_transmission row = labels ! k \<and> price row (key fuel) = Some p"
      by (rule reportedAt_reported)
  qed
  have s8: "\<forall>row\<in>set (data sd). distinct (map last_transmission (data sd)) \<longrightarrow>
      reportedAt sd (key fuel) (last_transmission row) = price row (key fuel)"
    using reportedAt_unique by blast
  have s9: "\<forall>k<length labels. labels ! k \<notin> last_transmission ` set (data sd) \<longrightarrow>
      dataPoints (buildDataset labels sd index fuel) ! k = None"
    unfolding s5 by (simp add: reportedAt_absent)
  show ?thesis using s1 s2 s3 s4 s5 s6 s7 s8 s9 by (intro conjI)
qed

text \<open>
  X has its point at 08:00 and Y at 09:00, and diesel is the active fuel: both timestamps
  are labels, X's line has a gap at 09:00 and Y's line has a gap at 08:00.
\<close>

theorem chart_alignment_witness:
  "sortedLabels (renderMultiStationChart exampleState exampleData)
     = [''2024-05-01T08:00:00'', ''2024-05-01T09:00:00''] \<and>
   map dataPoints (datasets (renderMultiStationChart exampleState exampleData))
     = [[Some 1.899, None], [None, Some 1.879]] \<and>
   dataPoints (buildDataset [''2024-05-01T08:00:00'', ''2024-05-01T09:00:00'']
                 (exampleData ! 1) 1 (FUEL_TYPE_CONFIG ! 0))
     = [None, Some 1.879]"
proof -
  have labels: "sortedLabels (renderMultiStationChart exampleState exampleData)
     = [''2024-05-01T08:00:00'', ''2024-05-01T09:00:00'']"
    by (simp add: renderMultiStationChart_def allTimestamps_def exampleData_def dieselRow_def setAdd_def Let_def)
  have active: "activeFuelTypes exampleState = [FUEL_TYPE_CONFIG ! 0]"
    by (simp add: activeFuelTypes_def FUEL_TYPE_CONFIG_def exampleState_def)
  have y: "dataPoints (buildDataset [''2024-05-01T08:00:00'', ''2024-05-01T09:00:00'']
                 (exampleData ! 1) 1 (FUEL_TYPE_CONFIG ! 0)) = [None, Some 1.879]"
    using chart_alignment[where st = exampleState and arr = exampleData
          and labels = "[''2024-05-01T08:00:00'', ''2024-05-01T09:00:00'']"
          and sd = "exampleData ! 1" and fuel = "FUEL_TYPE_CONFIG ! 0" and index = 1]
    by (simp add: exampleData_def dieselRow_def reportedAt_def FUEL_TYPE_CONFIG_def)
  have x: "dataPoints (buildDataset [''2024-05-01T08:00:00'', ''2024-05-01T09:00:00'']
                 (exampleData ! 0) 0 (FUEL_TYPE_CONFIG ! 0)) = [Some 1.899, None]"
    using chart_alignment[where st = exampleState and arr = exampleData
          and labels = "[''2024-05-01T08:00:00'', ''2024-05-01T09:00:00'']"
          and sd = "exampleData ! 0" and fuel = "FUEL_TYPE_CONFIG ! 0" and index = 0]
    by (simp add: exampleData_def dieselRow_def reportedAt_def FUEL_TYPE_CONFIG_def)
  have ds: "datasets (renderMultiStationChart exampleState exampleData) =
     concat (map (\<lambda>(sd, index). map (buildDataset (sortedLabels (renderMultiStationChart exampleState exampleData)) sd index)
                                    (activeFuelTypes exampleState))
                 (zip exampleData [0..<length exampleData]))"
    using chart_alignment[where st = exampleState and arr = exampleData] by blast
  have len: "length exampleData = 2" "zip exampleData [0..<2] = [(exampleData ! 0, 0), (exampleData ! 1, 1)]"
    by (simp_all add: exampleData_def upt_rec numeral_eq_Suc)
  have "map dataPoints (datasets (renderMultiStationChart exampleState exampleData))
     = [[Some 1.899, None], [None, Some 1.879]]"
    unfolding ds labels active len using x y by simp
  then show ?thesis using labels y by simp
qed

section \<open>Refresh\<close>

lemma awaitAll_Some:
  assumes "\<forall>p\<in>set ps. p \<noteq> None"
  shows "awaitAll ps = Some (map the ps)"
  using assms by (induction ps) auto

lemma fetchPriceHistory_returns:
  "fetchPaginatedData (service i) \<noteq> None \<Longrightarrow> fetchPriceHistory service i \<noteq> None"
  by (auto simp: fetchPriceHistory_def split: option.splits sum.splits prod.splits)

text \<open>
  Claim C6. When every station's paginated fetch comes to an end (with rows or with
  an exception), the refresh completes with one entry per selected station, in selection
  order; a station whose fetch raised (whatever the exception) has the empty series, and
  every other station has the rows fetched for it.
\<close>

theorem refresh_isolates_failures:
  assumes "\<forall>s\<in>set (selectedStations st). fetchPaginatedData (service (station_id s)) \<noteq> None"
  shows "\<exists>arr. fetchStationData service st = Some arr \<and>
           map station arr = selectedStations st \<and>
           (\<forall>i<length arr.
              (\<forall>e requested. fetchPaginatedData (service (station_id (station (arr ! i)))) = Some (Inl e, requested)
                 \<longrightarrow> data (arr ! i) = []) \<and>
              (\<forall>rows requested. fetchPaginatedData (service (station_id (station (arr ! i)))) = Some (Inr rows, requested)
                 \<longrightarrow> data (arr ! i) = rows))"
proof -
  let ?sel = "selectedStations st"
  let ?ps = "map (\<lambda>s. fetchPriceHistory service (station_id s)) ?sel"
  let ?arr = "map (\<lambda>(s, index). \<lparr>station = s, data = map the ?ps ! index\<rparr>) (zip ?sel [0..<length ?sel])"
  have "\<forall>p\<in>set ?ps. p \<noteq> None"
  proof
    fix p assume "p \<in> set ?ps"
    then obtain s where "s \<in> set ?sel" "p = fetchPriceHistory service (station_id s)" by auto
    then show "p \<noteq> None" using assms fetchPriceHistory_returns by blast
  qed
  then have "awaitAll ?ps = Some (map the ?ps)" by (rule awaitAll_Some)
  then have run: "fetchStationData service st = Some ?arr" by (simp add: fetchStationData_def)
  have len: "length ?arr = length ?sel" by simp
  have nth: "?arr ! i = \<lparr>station = ?sel ! i, data = the (fetchPriceHistory service (station_id (?sel ! i)))\<rparr>"
    if "i < length ?sel" for i
    using that by simp
  have stations: "map station ?arr = ?sel"
    by (rule nth_equalityI) (simp_all add: nth del: map_map)
  have rows: "(\<forall>e requested. fetchPaginatedData (service (station_id (station (?arr ! i)))) = Some (Inl e, requested)
                 \<longrightarrow> data (?arr ! i) = []) \<and>
              (\<forall>rows requested. fetchPaginatedData (service (station_id (station (?arr ! i)))) = Some (Inr rows, requested)
                 \<longrightarrow> data (?arr ! i) = rows)"
    if "i < length ?arr" for i
  proof -
    have i: "i < length ?sel" using that by simp
    show ?thesis unfolding nth[OF i] by (simp add: fetchPriceHistory_def)
  qed
  show ?thesis using run stations rows by blast
qed

text \<open>
The service fails for X with status 500: X has no rows, Y has its row.
\<close>

theorem refresh_isolates_failures_witness:
  "fetchStationData exampleService exampleState =
     Some [\<lparr>station = stationX, data = []\<rparr>,
           \<lparr>station = stationY, data = [dieselRow ''2024-05-01T09:00:00'' (Some 1.879)]\<rparr>]"
proof -
  have x: "fetchPaginatedData (exampleService ''X'') = Some (Inl (HTTPError 500 0), [0])"
    unfolding fetchPaginatedData_def
    by (subst fetchLoop.simps) (simp add: exampleService_def ok_def)
  have y: "fetchPaginatedData (exampleService ''Y'') =
           Some (Inr [dieselRow ''2024-05-01T09:00:00'' (Some 1.879)], [0])"
    unfolding fetchPaginatedData_def
    by (simp add: exampleService_def fetchLoop_sql PAGE_SIZE_def)
  have "\<forall>s\<in>set (selectedStations exampleState). fetchPaginatedData (exampleService (station_id s)) \<noteq> None"
    by (simp add: exampleState_def stationX_def stationY_def x y)
  from refresh_isolates_failures[OF this] obtain arr where
    run: "fetchStationData exampleService exampleState = Some arr" and
    st: "map station arr = selectedStations exampleState" and
    rows: "\<forall>i<length arr.
              (\<forall>e requested. fetchPaginatedData (exampleService (station_id (station (arr ! i)))) = Some (Inl e, requested)
                 \<longrightarrow> data (arr ! i) = []) \<and>
              (\<forall>rows requested. fetchPaginatedData (exampleService (station_id (station (arr ! i)))) = Some (Inr rows, requested)
                 \<longrightarrow> data (arr ! i) = rows)"
    by blast
  have "length (map station arr) = length (selectedStations exampleState)" by (simp only: st)
  then have len: "length arr = Suc (Suc 0)" by (simp add: exampleState_def)
  then obtain a b where ab: "arr = [a, b]"
    by (auto simp: length_Suc_conv)
  have sa: "station a = stationX" and sb: "station b = stationY"
    using st ab by (simp_all add: exampleState_def)
  have "data a = []"
    using rows[rule_format, of 0] ab sa x by (simp add: stationX_def)
  moreover have "data b = [dieselRow ''2024-05-01T09:00:00'' (Some 1.879)]"
    using rows[rule_format, of 1] ab sb y by (simp add: stationY_def)
  ultimately have "arr = [\<lparr>station = stationX, data = []\<rparr>,
           \<lparr>station = stationY, data = [dieselRow ''2024-05-01T09:00:00'' (Some 1.879)]\<rparr>]"
    using ab sa sb by simp
  then show ?thesis using run by simp
qed

section \<open>Price patterns\<close>

lemma length_addPrice: "length (addPrice ar stats i p) = length stats"
  by (simp add: addPrice_def)

lemma nth_addPrice:
  "k < length stats \<Longrightarrow>
   addPrice ar stats i p ! k =
     (if k = i then (fadd ar (fst (stats ! i)) (Num p), Suc (snd (stats ! i))) else stats ! k)"
  by (simp add: addPrice_def nth_list_update)

lemma filled_addPrice:
  assumes "i < length stats"
  shows "filled ar (addPrice ar stats i p) b = filled ar stats (\<lambda>k. if k = i then p # b k else b k)"
  using assms by (auto simp: filled_def length_addPrice nth_addPrice)

text \<open>
  The loop adds every priced point to the bucket of its weekday and to the bucket of
  its hour. Induction on the rows, for any statistics to start from.
\<close>

lemma accumulate_buckets:
  assumes "\<forall>row\<in>set rows. price row fuelKey \<noteq> Some 0"
    and "\<forall>row\<in>set rows. price row fuelKey \<noteq> None \<longrightarrow>
           (\<exists>d<length daily. \<exists>h<length hourly. localTime (last_transmission row) = Some (d, h))"
  shows "accumulate ar localTime fuelKey rows daily hourly =
           Inr (filled ar daily (bucket (dayOf localTime) fuelKey rows),
                filled ar hourly (bucket (hourOf localTime) fuelKey rows))"
  using assms
proof (induction rows arbitrary: daily hourly)
  case Nil
  show ?case by (simp add: filled_def map_nth)
next
  case (Cons row rows)
  show ?case
  proof (cases "price row fuelKey")
    case None
    then show ?thesis using Cons by (simp add: truthy_def)
  next
    case (Some p)
    then have p: "p \<noteq> 0" using Cons.prems(1) by auto
    obtain d h where dh: "d < length daily" "h < length hourly" "localTime (last_transmission row) = Some (d, h)"
      using Cons.prems(2) Some by auto
    have prems': "\<forall>row\<in>set rows. price row fuelKey \<noteq> Some 0"
      "\<forall>row\<in>set rows. price row fuelKey \<noteq> None \<longrightarrow>
           (\<exists>d'<length (addPrice ar daily d p). \<exists>h'<length (addPrice ar hourly h p).
              localTime (last_transmission row) = Some (d', h'))"
      using Cons.prems by (simp_all add: length_addPrice)
    have bd: "bucket (dayOf localTime) fuelKey (row # rows) =
              (\<lambda>k. if k = d then p # bucket (dayOf localTime) fuelKey rows k else bucket (dayOf localTime) fuelKey rows k)"
      using Some dh by (auto simp: dayOf_def)
    have bh: "bucket (hourOf localTime) fuelKey (row # rows) =
              (\<lambda>k. if k = h then p # bucket (hourOf localTime) fuelKey rows k else bucket (hourOf localTime) fuelKey rows k)"
      using Some dh by (auto simp: hourOf_def)
    have "accumulate ar localTime fuelKey (row # rows) daily hourly =
          accumulate ar localTime fuelKey rows (addPrice ar daily d p) (addPrice ar hourly h p)"
      using Some p dh by (simp add: truthy_def)
    also have "\<dots> = Inr (filled ar (addPrice ar daily d p) (bucket (dayOf localTime) fuelKey rows),
                          filled ar (addPrice ar hourly h p) (bucket (hourOf localTime) fuelKey rows))"
      by (rule Cons.IH[OF prems'])
    finally show ?thesis
      unfolding bd bh using dh by (simp add: filled_addPrice)
  qed
qed

lemma finiteValue_Num: "finiteValue v \<noteq> None \<Longrightarrow> map_option Num (finiteValue v) = Some v"
  by (cases v) simp_all

lemma averages_filled:
  assumes "finiteMeans ar slot fuelKey rows n"
  shows "averages ar (filled ar (replicate n (Num 0, 0)) (bucket slot fuelKey rows))
           = map (map_option Num) (bucketMeans ar slot fuelKey rows n)"
  using assms
  by (auto simp: averages_def filled_def bucketMeans_def floatMean_def floatSum_def finiteMeans_def
        finiteValue_Num)

lemma extrema_snoc:
  "extremaR (vs @ [v]) = extrema_step (extremaR vs) (map_option Num v, length vs)"
  by (simp add: extremaR_def extrema_def)

text \<open>
  The two searches find the first minimum and the first maximum of the averages that
  exist, when these are finite. Induction on the averages seen so far.
\<close>

lemma extremaR_Nil: "extremaR [] = ((- 1, Infinity), (- 1, NegInfinity))"
  by (simp add: extremaR_def extrema_def)

lemma extrema_min:
  "(if \<forall>v\<in>set vs. v = None then fst (extremaR vs) = (- 1, Infinity)
    else \<exists>i p. fst (extremaR vs) = (int i, Num p) \<and> isFirstMin vs i p)"
proof (induction vs rule: rev_induct)
  case Nil
  show ?case by (simp add: extremaR_Nil)
next
  case (snoc v vs)
  show ?case
  proof (cases v)
    case None
    then have same: "fst (extremaR (vs @ [v])) = fst (extremaR vs)"
      by (simp add: extrema_snoc extrema_step_def)
    show ?thesis
    proof (cases "\<forall>v\<in>set vs. v = None")
      case True
      then show ?thesis using snoc None same by simp
    next
      case False
      then have "\<exists>i p. fst (extremaR vs) = (int i, Num p) \<and> isFirstMin vs i p"
        using snoc by (simp only: if_False)
      then obtain i p where e: "fst (extremaR vs) = (int i, Num p)" and m: "isFirstMin vs i p" by blast
      have "isFirstMin (vs @ [v]) i p" using m by (rule isFirstMin_snoc_keep) (simp add: None)
      moreover have "fst (extremaR (vs @ [v])) = (int i, Num p)" using e same by simp
      moreover have "\<not> (\<forall>u\<in>set (vs @ [v]). u = None)" using False by simp
      ultimately show ?thesis by (simp only: if_False) blast
    qed
  next
    case (Some x)
    have step: "fst (extremaR (vs @ [v])) =
                (if lt (Num x) (snd (fst (extremaR vs))) then (int (length vs), Num x) else fst (extremaR vs))"
      by (simp add: extrema_snoc extrema_step_def Some)
    have ne: "\<not> (\<forall>u\<in>set (vs @ [v]). u = None)" using Some by simp
    show ?thesis
    proof (cases "\<forall>v\<in>set vs. v = None")
      case True
      then have "fst (extremaR vs) = (- 1, Infinity)" using snoc by simp
      then have "fst (extremaR (vs @ [v])) = (int (length vs), Num x)" using step by simp
      moreover have "isFirstMin (vs @ [v]) (length vs) x"
        unfolding Some using True by (rule isFirstMin_snoc_first)
      ultimately show ?thesis using ne by (simp only: if_False) blast
    next
      case False
      then have "\<exists>i p. fst (extremaR vs) = (int i, Num p) \<and> isFirstMin vs i p"
        using snoc by (simp only: if_False)
      then obtain i p where e: "fst (extremaR vs) = (int i, Num p)" and m: "isFirstMin vs i p" by blast
      show ?thesis
      proof (cases "x < p")
        case True
        then have "fst (extremaR (vs @ [v])) = (int (length vs), Num x)" using step e by simp
        moreover have "isFirstMin (vs @ [v]) (length vs) x"
          unfolding Some using m True by (rule isFirstMin_snoc_less)
        ultimately show ?thesis using ne by (simp only: if_False) blast
      next
        case False
        then have "fst (extremaR (vs @ [v])) = (int i, Num p)" using step e by simp
        moreover have "isFirstMin (vs @ [v]) i p"
          using m by (rule isFirstMin_snoc_keep) (use False Some in simp)
        ultimately show ?thesis using ne by (simp only: if_False) blast
      qed
    qed
  qed
qed

lemma extrema_max:
  "(if \<forall>v\<in>set vs. v = None then snd (extremaR vs) = (- 1, NegInfinity)
    else \<exists>i p. snd (extremaR vs) = (int i, Num p) \<and> isFirstMax vs i p)"
proof (induction vs rule: rev_induct)
  case Nil
  show ?case by (simp add: extremaR_Nil)
next
  case (snoc v vs)
  show ?case
  proof (cases v)
    case None
    then have same: "snd (extremaR (vs @ [v])) = snd (extremaR vs)"
      by (simp add: extrema_snoc extrema_step_def)
    show ?thesis
    proof (cases "\<forall>v\<in>set vs. v = None")
      case True
      then show ?thesis using snoc None same by simp
    next
      case False
      then have "\<exists>i p. snd (extremaR vs) = (int i, Num p) \<and> isFirstMax vs i p"
        using snoc by (simp only: if_False)
      then obtain i p where e: "snd (extremaR vs) = (int i, Num p)" and m: "isFirstMax vs i p" by blast
      have "isFirstMax (vs @ [v]) i p" using m by (rule isFirstMax_snoc_keep) (simp add: None)
      moreover have "snd (extremaR (vs @ [v])) = (int i, Num p)" using e same by simp
      moreover have "\<not> (\<forall>u\<in>set (vs @ [v]). u = None)" using False by simp
      ultimately show ?thesis by (simp only: if_False) blast
    qed
  next
    case (Some x)
    have step: "snd (extremaR (vs @ [v])) =
                (if lt (snd (snd (extremaR vs))) (Num x) then (int (length vs), Num x) else snd (extremaR vs))"
      by (simp add: extrema_snoc extrema_step_def Some)
    have ne: "\<not> (\<forall>u\<in>set (vs @ [v]). u = None)" using Some by simp
    show ?thesis
    proof (cases "\<forall>v\<in>set vs. v = None")
      case True
      then have "snd (extremaR vs) = (- 1, NegInfinity)" using snoc by simp
      then have "snd (extremaR (vs @ [v])) = (int (length vs), Num x)" using step by simp
      moreover have "isFirstMax (vs @ [v]) (length vs) x"
        unfolding Some using True by (rule isFirstMax_snoc_first)
      ultimately show ?thesis using ne by (simp only: if_False) blast
    next
      case False
      then have "\<exists>i p. snd (extremaR vs) = (int i, Num p) \<and> isFirstMax vs i p"
        using snoc by (simp only: if_False)
      then obtain i p where e: "snd (extremaR vs) = (int i, Num p)" and m: "isFirstMax vs i p" by blast
      show ?thesis
      proof (cases "p < x")
        case True
        then have "snd (extremaR (vs @ [v])) = (int (length vs), Num x)" using step e by simp
        moreover have "isFirstMax (vs @ [v]) (length vs) x"
          unfolding Some using m True by (rule isFirstMax_snoc_greater)
        ultimately show ?thesis using ne by (simp only: if_False) blast
      next
        case False
        then have "snd (extremaR (vs @ [v])) = (int i, Num p)" using step e by simp
        moreover have "isFirstMax (vs @ [v]) i p"
          using m by (rule isFirstMax_snoc_keep) (use False Some in simp)
        ultimately show ?thesis using ne by (simp only: if_False) blast
      qed
    qed
  qed
qed

lemma bucket_no_prices:
  "\<forall>row\<in>set rows. price row fuelKey = None \<Longrightarrow> bucket slot fuelKey rows k = []"
  by (induction rows) simp_all

lemma bucket_nonempty:
  "row \<in> set rows \<Longrightarrow> price row fuelKey = Some p \<Longrightarrow> slot row = Some k \<Longrightarrow> bucket slot fuelKey rows k \<noteq> []"
  by (induction rows) (auto split: option.splits)

lemma bucketMeans_all_None:
  assumes "\<forall>row\<in>set rows. price row fuelKey \<noteq> None \<longrightarrow> (\<exists>k<n. slot row = Some k)"
    and fin: "finiteMeans ar slot fuelKey rows n"
  shows "(\<forall>v\<in>set (bucketMeans ar slot fuelKey rows n). v = None) = (\<forall>row\<in>set rows. price row fuelKey = None)"
proof
  assume "\<forall>row\<in>set rows. price row fuelKey = None"
  then show "\<forall>v\<in>set (bucketMeans ar slot fuelKey rows n). v = None"
    by (simp add: bucketMeans_def bucket_no_prices)
next
  assume a: "\<forall>v\<in>set (bucketMeans ar slot fuelKey rows n). v = None"
  show "\<forall>row\<in>set rows. price row fuelKey = None"
  proof (rule ccontr)
    assume "\<not> (\<forall>row\<in>set rows. price row fuelKey = None)"
    then obtain row p where r: "row \<in> set rows" "price row fuelKey = Some p" by auto
    then obtain k where k: "k < n" "slot row = Some k" using assms by auto
    have "bucket slot fuelKey rows k \<noteq> []" using r k by (intro bucket_nonempty)
    then have ne: "bucket slot fuelKey rows k \<noteq> []" .
    then have "finiteValue (floatMean ar (bucket slot fuelKey rows k)) \<noteq> None"
      using fin k by (simp add: finiteMeans_def)
    moreover have "finiteValue (floatMean ar (bucket slot fuelKey rows k)) \<in> set (bucketMeans ar slot fuelKey rows n)"
      using k ne by (auto simp: bucketMeans_def image_iff intro!: bexI[of _ k])
    ultimately show False using a by auto
  qed
qed

lemma length_bucketMeans: "length (bucketMeans ar slot fuelKey rows n) = n"
  by (simp add: bucketMeans_def)

lemma bucket_partition:
  assumes "\<forall>row\<in>set rows. price row fuelKey \<noteq> None \<longrightarrow> (\<exists>k<n. slot row = Some k)"
  shows "(\<Sum>k<n. length (bucket slot fuelKey rows k)) = length (filter (\<lambda>row. price row fuelKey \<noteq> None) rows)"
  using assms
proof (induction rows)
  case Nil
  show ?case by simp
next
  case (Cons row rows)
  then have IH: "(\<Sum>k<n. length (bucket slot fuelKey rows k)) = length (filter (\<lambda>row. price row fuelKey \<noteq> None) rows)"
    by simp
  show ?case
  proof (cases "price row fuelKey")
    case None
    then show ?thesis using IH by simp
  next
    case (Some p)
    then obtain k0 where k0: "k0 < n" "slot row = Some k0" using Cons.prems by auto
    have "(\<Sum>k<n. length (bucket slot fuelKey (row # rows) k)) =
          (\<Sum>k<n. (if k = k0 then 1 else 0) + length (bucket slot fuelKey rows k))"
      using Some k0 by (intro sum.cong) auto
    also have "\<dots> = (\<Sum>k<n. if k = k0 then 1 else 0) + (\<Sum>k<n. length (bucket slot fuelKey rows k))"
      by (simp add: sum.distrib)
    also have "(\<Sum>k<n. if k = k0 then 1 else 0::nat) = 1"
      using k0 by simp
    finally show ?thesis using IH Some by simp
  qed
qed

lemma slot_day:
  assumes "\<forall>row\<in>set rows. price row fuelKey \<noteq> None \<longrightarrow>
           (\<exists>d<7. \<exists>h<24. localTime (last_transmission row) = Some (d, h))"
  shows "\<forall>row\<in>set rows. price row fuelKey \<noteq> None \<longrightarrow> (\<exists>k<7. dayOf localTime row = Some k)"
  using assms by (fastforce simp: dayOf_def)

lemma slot_hour:
  assumes "\<forall>row\<in>set rows. price row fuelKey \<noteq> None \<longrightarrow>
           (\<exists>d<7. \<exists>h<24. localTime (last_transmission row) = Some (d, h))"
  shows "\<forall>row\<in>set rows. price row fuelKey \<noteq> None \<longrightarrow> (\<exists>k<24. hourOf localTime row = Some k)"
  using assms by (fastforce simp: hourOf_def)

lemma dayName_nth: "i < 7 \<Longrightarrow> dayName (int i) = Some (dayNames ! i)"
  by (simp add: dayName_def dayNames_def)

text \<open>
With an arithmetic that does not round, the mean is the sum over the length.
\<close>

lemma foldl_exact:
  assumes "\<And>a b. fadd ar (Num a) (Num b) = Num (a + b)"
  shows "foldl (\<lambda>s p. fadd ar s (Num p)) (Num a) xs = Num (a + sum_list xs)"
  by (induction xs arbitrary: a) (simp_all add: assms add.assoc)

lemma floatMean_exact:
  assumes "\<And>a b. fadd ar (Num a) (Num b) = Num (a + b)"
    and "\<And>a b. b \<noteq> 0 \<Longrightarrow> fdiv ar (Num a) (Num b) = Num (a / b)"
    and "xs \<noteq> []"
  shows "floatMean ar xs = Num (sum_list xs / real (length xs))"
  using assms(2,3) by (simp add: floatMean_def floatSum_def foldl_exact[OF assms(1)])

text \<open>
  The doubles of the example. Where \<open>2^e \<le> |x| < 2^(e+1)\<close>, the doubles around \<open>x\<close>
  are the multiples of \<open>2^(e-52)\<close>. The texts 1.1, 1.3 and 1.2 denote doubles slightly
  off these decimals, and the sum of the first two is rounded up, to the double written
  \<^verbatim>\<open>2.4000000000000004\<close>.
\<close>

lemma pow2_powr: "pow2 e = 2 powr of_int e"
proof (cases "0 \<le> e")
  case True
  then have "2 powr of_int e = (2::real) powr real (nat e)" by simp
  also have "\<dots> = 2 ^ nat e" by (rule powr_realpow) simp
  finally show ?thesis using True by (simp add: pow2_def)
next
  case False
  then have "2 powr of_int e = (2::real) powr (- real (nat (- e)))" by simp
  also have "\<dots> = 1 / 2 powr real (nat (- e))" by (simp add: powr_minus divide_inverse)
  also have "2 powr real (nat (- e)) = (2::real) ^ nat (- e)" by (rule powr_realpow) simp
  finally show ?thesis using False by (simp add: pow2_def)
qed

lemma ulp_normal:
  assumes "pow2 e \<le> \<bar>x\<bar>" and "\<bar>x\<bar> < pow2 (e + 1)" and "- 1022 \<le> e"
  shows "ulp x = pow2 (e - 52)"
proof -
  have a: "2 powr of_int e \<le> \<bar>x\<bar>" "\<bar>x\<bar> < 2 powr (of_int e + 1)"
    using assms(1,2) by (simp_all add: pow2_powr)
  have "0 < (2::real) powr of_int e" by simp
  then have pos: "0 < \<bar>x\<bar>" using a(1) by linarith
  have "of_int e \<le> log 2 \<bar>x\<bar>" using a(1) pos by (simp add: le_log_iff)
  moreover have "log 2 \<bar>x\<bar> < of_int e + 1" using a(2) pos by (simp add: log_less_iff)
  ultimately have "\<lfloor>log 2 \<bar>x\<bar>\<rfloor> = e" by (intro floor_unique) simp_all
  then show ?thesis using assms(3) by (simp add: ulp_def)
qed

lemma nearest_normal:
  assumes "pow2 e \<le> \<bar>x\<bar>" and "\<bar>x\<bar> < pow2 (e + 1)" and "- 1022 \<le> e"
  shows "nearest x = of_int (roundEven (x / pow2 (e - 52))) * pow2 (e - 52)"
proof -
  have "0 < pow2 e" by (simp add: pow2_def)
  then have "x \<noteq> 0" using assms(1) by auto
  then show ?thesis by (simp add: nearest_def ulp_normal[OF assms])
qed

lemma n11: "nearest 1.1 = 2476979795053773 / 2251799813685248"
  using nearest_normal[of 0 "1.1"] by (simp add: roundEven_def pow2_def Let_def)

lemma n13: "nearest 1.3 = 5854679515581645 / 4503599627370496"
  using nearest_normal[of 0 "1.3"] by (simp add: roundEven_def pow2_def Let_def)

lemma n12: "nearest 1.2 = 5404319552844595 / 4503599627370496"
  using nearest_normal[of 0 "1.2"] by (simp add: roundEven_def pow2_def Let_def)

lemma n12up: "nearest 1.2000000000000002 = 1351079888211149 / 1125899906842624"
  using nearest_normal[of 0 "1.2000000000000002"] by (simp add: roundEven_def pow2_def Let_def)

lemma r11: "round64 (2476979795053773 / 2251799813685248) = Num (2476979795053773 / 2251799813685248)"
  using nearest_normal[of 0 "2476979795053773 / 2251799813685248"]
  by (simp add: round64_def roundEven_def pow2_def Let_def)

lemma r12: "round64 (5404319552844595 / 4503599627370496) = Num (5404319552844595 / 4503599627370496)"
  using nearest_normal[of 0 "5404319552844595 / 4503599627370496"]
  by (simp add: round64_def roundEven_def pow2_def Let_def)

lemma r24: "round64 (10808639105689191 / 4503599627370496) = Num (1351079888211149 / 562949953421312)"
  using nearest_normal[of 1 "10808639105689191 / 4503599627370496"]
  by (simp add: round64_def roundEven_def pow2_def Let_def)

lemma r12up: "round64 (1351079888211149 / 1125899906842624) = Num (1351079888211149 / 1125899906842624)"
  using nearest_normal[of 0 "1351079888211149 / 1125899906842624"]
  by (simp add: round64_def roundEven_def pow2_def Let_def)

text \<open>
  Claim C7. For a series whose prices are never 0, whose priced points have valid
  timestamps and whose bucket means are finite, in whatever arithmetic the platform
  computes: the non-null points are partitioned into 7 weekday buckets and into 24 hour
  buckets (each point is in exactly one of either kind). When no point has a price the
  function returns \<^verbatim>\<open>null\<close>. Otherwise it reports the weekday and the hour with the
  least and with the greatest arithmetic mean among the buckets that received a point,
  the first such in case of equal means, together with that mean; a bucket without a point
  has no mean (it is not taken as 0) and is never reported. The mean of a bucket is the
  one the program computes in double arithmetic: its prices added in the order of the
  rows, from 0, and the sum divided by their number, so two means compare as the program's
  doubles do.
\<close>

theorem analyzePricePatterns_buckets:
  assumes "\<forall>row\<in>set rows. price row fuelKey \<noteq> Some 0"
    and "\<forall>row\<in>set rows. price row fuelKey \<noteq> None \<longrightarrow>
           (\<exists>d<7. \<exists>h<24. localTime (last_transmission row) = Some (d, h))"
    and "finiteMeans ar (dayOf localTime) fuelKey rows 7"
    and "finiteMeans ar (hourOf localTime) fuelKey rows 24"
  shows "(if \<forall>row\<in>set rows. price row fuelKey = None
          then analyzePricePatterns ar localTime rows fuelKey = Inr None
          else \<exists>r di dp dj dq hi hp hj hq.
            analyzePricePatterns ar localTime rows fuelKey = Inr (Some r) \<and>
            cheapestDay r = (Some (dayNames ! di), Num dp) \<and>
            isFirstMin (bucketMeans ar (dayOf localTime) fuelKey rows 7) di dp \<and>
            dearestDay r = (Some (dayNames ! dj), Num dq) \<and>
            isFirstMax (bucketMeans ar (dayOf localTime) fuelKey rows 7) dj dq \<and>
            cheapestHour r = (int hi, Num hp) \<and>
            isFirstMin (bucketMeans ar (hourOf localTime) fuelKey rows 24) hi hp \<and>
            dearestHour r = (int hj, Num hq) \<and>
            isFirstMax (bucketMeans ar (hourOf localTime) fuelKey rows 24) hj hq) \<and>
         (\<Sum>k<7. length (bucket (dayOf localTime) fuelKey rows k))
            = length (filter (\<lambda>row. price row fuelKey \<noteq> None) rows) \<and>
         (\<Sum>k<24. length (bucket (hourOf localTime) fuelKey rows k))
            = length (filter (\<lambda>row. price row fuelKey \<noteq> None) rows)"
proof -
  let ?D = "bucketMeans ar (dayOf localTime) fuelKey rows 7"
  let ?H = "bucketMeans ar (hourOf localTime) fuelKey rows 24"
  have valid: "\<forall>row\<in>set rows. price row fuelKey \<noteq> None \<longrightarrow>
           (\<exists>d<length (replicate 7 (Num 0, 0::nat)). \<exists>h<length (replicate 24 (Num 0, 0::nat)).
              localTime (last_transmission row) = Some (d, h))"
    using assms(2) by simp
  have acc: "accumulate ar localTime fuelKey rows (replicate 7 (Num 0, 0)) (replicate 24 (Num 0, 0)) =
           Inr (filled ar (replicate 7 (Num 0, 0)) (bucket (dayOf localTime) fuelKey rows),
                filled ar (replicate 24 (Num 0, 0)) (bucket (hourOf localTime) fuelKey rows))"
    by (rule accumulate_buckets[OF assms(1) valid])
  have run: "analyzePricePatterns ar localTime rows fuelKey =
        (if fst (fst (extremaR ?D)) = - 1 \<or> fst (fst (extremaR ?H)) = - 1 then Inr None
         else Inr (Some
                \<lparr>cheapestDay = (dayName (fst (fst (extremaR ?D))), snd (fst (extremaR ?D))),
                 dearestDay = (dayName (fst (snd (extremaR ?D))), snd (snd (extremaR ?D))),
                 cheapestHour = fst (extremaR ?H),
                 dearestHour = snd (extremaR ?H)\<rparr>))"
    by (simp add: analyzePricePatterns_def acc averages_filled[OF assms(3)] averages_filled[OF assms(4)]
          Let_def extremaR_def)
  have noneD: "(\<forall>v\<in>set ?D. v = None) = (\<forall>row\<in>set rows. price row fuelKey = None)"
    by (rule bucketMeans_all_None[OF slot_day[OF assms(2)] assms(3)])
  have noneH: "(\<forall>v\<in>set ?H. v = None) = (\<forall>row\<in>set rows. price row fuelKey = None)"
    by (rule bucketMeans_all_None[OF slot_hour[OF assms(2)] assms(4)])
  have main: "(if \<forall>row\<in>set rows. price row fuelKey = None
          then analyzePricePatterns ar localTime rows fuelKey = Inr None
          else \<exists>r di dp dj dq hi hp hj hq.
            analyzePricePatterns ar localTime rows fuelKey = Inr (Some r) \<and>
            cheapestDay r = (Some (dayNames ! di), Num dp) \<and> isFirstMin ?D di dp \<and>
            dearestDay r = (Some (dayNames ! dj), Num dq) \<and> isFirstMax ?D dj dq \<and>
            cheapestHour r = (int hi, Num hp) \<and> isFirstMin ?H hi hp \<and>
            dearestHour r = (int hj, Num hq) \<and> isFirstMax ?H hj hq)"
  proof (cases "\<forall>row\<in>set rows. price row fuelKey = None")
    case True
    then have "fst (extremaR ?D) = (- 1, Infinity)" using extrema_min[of ?D] noneD by simp
    then show ?thesis using True run by simp
  next
    case False
    have "\<exists>i p. fst (extremaR ?D) = (int i, Num p) \<and> isFirstMin ?D i p"
      using extrema_min[of ?D] noneD False by (simp only: if_False)
    then obtain di dp where dmin: "fst (extremaR ?D) = (int di, Num dp)" "isFirstMin ?D di dp" by blast
    have "\<exists>i p. snd (extremaR ?D) = (int i, Num p) \<and> isFirstMax ?D i p"
      using extrema_max[of ?D] noneD False by (simp only: if_False)
    then obtain dj dq where dmax: "snd (extremaR ?D) = (int dj, Num dq)" "isFirstMax ?D dj dq" by blast
    have "\<exists>i p. fst (extremaR ?H) = (int i, Num p) \<and> isFirstMin ?H i p"
      using extrema_min[of ?H] noneH False by (simp only: if_False)
    then obtain hi hp where hmin: "fst (extremaR ?H) = (int hi, Num hp)" "isFirstMin ?H hi hp" by blast
    have "\<exists>i p. snd (extremaR ?H) = (int i, Num p) \<and> isFirstMax ?H i p"
      using extrema_max[of ?H] noneH False by (simp only: if_False)
    then obtain hj hq where hmax: "snd (extremaR ?H) = (int hj, Num hq)" "isFirstMax ?H hj hq" by blast
    have di: "di < 7" using dmin(2) by (simp add: isFirstMin_def length_bucketMeans)
    have dj: "dj < 7" using dmax(2) by (simp add: isFirstMax_def length_bucketMeans)
    let ?r = "\<lparr>cheapestDay = (Some (dayNames ! di), Num dp),
               dearestDay = (Some (dayNames ! dj), Num dq),
               cheapestHour = (int hi, Num hp),
               dearestHour = (int hj, Num hq)\<rparr>"
    have "analyzePricePatterns ar localTime rows fuelKey = Inr (Some ?r)"
      unfolding run using dmin(1) dmax(1) hmin(1) hmax(1) di dj by (simp add: dayName_nth)
    moreover have "cheapestDay ?r = (Some (dayNames ! di), Num dp)" "dearestDay ?r = (Some (dayNames ! dj), Num dq)"
      "cheapestHour ?r = (int hi, Num hp)" "dearestHour ?r = (int hj, Num hq)" by simp_all
    ultimately have "\<exists>r di dp dj dq hi hp hj hq.
            analyzePricePatterns ar localTime rows fuelKey = Inr (Some r) \<and>
            cheapestDay r = (Some (dayNames ! di), Num dp) \<and> isFirstMin ?D di dp \<and>
            dearestDay r = (Some (dayNames ! dj), Num dq) \<and> isFirstMax ?D dj dq \<and>
            cheapestHour r = (int hi, Num hp) \<and> isFirstMin ?H hi hp \<and>
            dearestHour r = (int hj, Num hq) \<and> isFirstMax ?H hj hq"
      using dmin(2) dmax(2) hmin(2) hmax(2) by blast
    then show ?thesis using False by (simp only: if_False)
  qed
  have pd: "(\<Sum>k<7. length (bucket (dayOf localTime) fuelKey rows k))
            = length (filter (\<lambda>row. price row fuelKey \<noteq> None) rows)"
    by (rule bucket_partition[OF slot_day[OF assms(2)]])
  have ph: "(\<Sum>k<24. length (bucket (hourOf localTime) fuelKey rows k))
            = length (filter (\<lambda>row. price row fuelKey \<noteq> None) rows)"
    by (rule bucket_partition[OF slot_hour[OF assms(2)]])
  show ?thesis using main pd ph by (intro conjI)
qed

text \<open>
  In double arithmetic, the diesel prices 1.1 and 1.3 on a Wednesday in the hour from 8
  and 1.2 on the Thursday in the hour from 9: the mean of the first two is the double
  written \<^verbatim>\<open>1.2000000000000002\<close>, above 1.2, so Thursday and 9 are the cheapest at
  1.2, and Wednesday and 8 the dearest at \<^verbatim>\<open>1.2000000000000002\<close>. (Without rounding
  the two means would be equal.)
\<close>

theorem analyzePricePatterns_buckets_witness:
  "analyzePricePatterns doubleArith twoDays
        [dieselRow ''2024-05-01T08:00:00'' (Some (nearest 1.1)),
         dieselRow ''2024-05-01T08:30:00'' (Some (nearest 1.3)),
         dieselRow ''2024-05-02T09:00:00'' (Some (nearest 1.2))]
        PriceDiesel =
   Inr (Some \<lparr>cheapestDay = (Some ''Donnerstag'', Num (nearest 1.2)),
              dearestDay = (Some ''Mittwoch'', Num (nearest 1.2000000000000002)),
              cheapestHour = (9, Num (nearest 1.2)),
              dearestHour = (8, Num (nearest 1.2000000000000002))\<rparr>)"
proof -
  let ?a = "2476979795053773 / 2251799813685248 :: real"
  let ?b = "5854679515581645 / 4503599627370496 :: real"
  let ?c = "5404319552844595 / 4503599627370496 :: real"
  let ?rows = "[dieselRow ''2024-05-01T08:00:00'' (Some ?a),
                dieselRow ''2024-05-01T08:30:00'' (Some ?b),
                dieselRow ''2024-05-02T09:00:00'' (Some ?c)]"
  have h1: "\<forall>row\<in>set ?rows. price row PriceDiesel \<noteq> Some 0"
    by (simp add: dieselRow_def)
  have h2: "\<forall>row\<in>set ?rows. price row PriceDiesel \<noteq> None \<longrightarrow>
           (\<exists>d<7. \<exists>h<24. twoDays (last_transmission row) = Some (d, h))"
    by (simp add: dieselRow_def twoDays_def)
  have bd: "bucket (dayOf twoDays) PriceDiesel ?rows k =
              (if k = 3 then [?a, ?b] else if k = 4 then [?c] else [])" for k
    by (simp add: dieselRow_def twoDays_def dayOf_def)
  have bh: "bucket (hourOf twoDays) PriceDiesel ?rows k =
              (if k = 8 then [?a, ?b] else if k = 9 then [?c] else [])" for k
    by (simp add: dieselRow_def twoDays_def hourOf_def)
  have h3: "finiteMeans doubleArith (dayOf twoDays) PriceDiesel ?rows 7"
    unfolding finiteMeans_def bd
    by (simp add: floatMean_def floatSum_def doubleArith_def r11 r12 r24 r12up del: not_None_eq)
  have h4: "finiteMeans doubleArith (hourOf twoDays) PriceDiesel ?rows 24"
    unfolding finiteMeans_def bh
    by (simp add: floatMean_def floatSum_def doubleArith_def r11 r12 r24 r12up del: not_None_eq)
  have ne: "\<not> (\<forall>row\<in>set ?rows. price row PriceDiesel = None)"
    by (simp add: dieselRow_def)
  have "\<exists>r di dp dj dq hi hp hj hq.
            analyzePricePatterns doubleArith twoDays ?rows PriceDiesel = Inr (Some r) \<and>
            cheapestDay r = (Some (dayNames ! di), Num dp) \<and>
            isFirstMin (bucketMeans doubleArith (dayOf twoDays) PriceDiesel ?rows 7) di dp \<and>
            dearestDay r = (Some (dayNames ! dj), Num dq) \<and>
            isFirstMax (bucketMeans doubleArith (dayOf twoDays) PriceDiesel ?rows 7) dj dq \<and>
            cheapestHour r = (int hi, Num hp) \<and>
            isFirstMin (bucketMeans doubleArith (hourOf twoDays) PriceDiesel ?rows 24) hi hp \<and>
            dearestHour r = (int hj, Num hq) \<and>
            isFirstMax (bucketMeans doubleArith (hourOf twoDays) PriceDiesel ?rows 24) hj hq"
    using analyzePricePatterns_buckets[OF h1 h2 h3 h4] ne by (simp only: if_False)
  then obtain r where r: "analyzePricePatterns doubleArith twoDays ?rows PriceDiesel = Inr (Some r)"
    by blast
  have e: "analyzePricePatterns doubleArith twoDays ?rows PriceDiesel =
     Inr (Some \<lparr>cheapestDay = (Some ''Donnerstag'', Num ?c),
                dearestDay = (Some ''Mittwoch'', Num (1351079888211149 / 1125899906842624)),
                cheapestHour = (9, Num ?c),
                dearestHour = (8, Num (1351079888211149 / 1125899906842624))\<rparr>)"
    by (simp add: analyzePricePatterns_def dieselRow_def twoDays_def truthy_def addPrice_def
        averages_def extrema_def extrema_step_def dayName_def dayNames_def upt_rec numeral_eq_Suc Let_def
        doubleArith_def r11 r12 r24 r12up)
  from r e show ?thesis unfolding n11 n12 n13 n12up by simp
qed

section \<open>Zero prices\<close>

lemma accumulate_skip:
  assumes "\<not> truthy (price row fuelKey)"
  shows "accumulate ar localTime fuelKey (xs @ row # ys) daily hourly = accumulate ar localTime fuelKey (xs @ ys) daily hourly"
  using assms by (induction xs arbitrary: daily hourly) (auto split: option.splits)

lemma findCheapest_skip:
  assumes "latest fuelKey sd = Some 0"
  shows "findCheapest (xs @ sd # ys) fuelKey = findCheapest (xs @ ys) fuelKey"
proof -
  have "\<not> truthy (latest fuelKey sd)" using assms by (simp add: truthy_def)
  then show ?thesis by (simp add: findCheapest_def findCheapest_step_skip)
qed

lemma bucket_skip:
  assumes "price row fuelKey = None"
  shows "bucket slot fuelKey (xs @ row # ys) k = bucket slot fuelKey (xs @ ys) k"
  using assms by (induction xs) (auto split: option.splits)

text \<open>
  Claim C9. A price of exactly 0 counts as absent: \<^verbatim>\<open>findCheapest\<close> gives the same
  result with or without a station whose most recent value is 0, the pattern analysis
  gives the same result with or without a row whose price is 0, and the aligned value at
  a timestamp where the station reports 0 is the gap marker.
\<close>

theorem zero_price_is_absent:
  "(latest fuelKey sd = Some 0 \<longrightarrow> findCheapest (xs @ sd # ys) fuelKey = findCheapest (xs @ ys) fuelKey) \<and>
   (price row fuelKey = Some 0 \<longrightarrow>
      analyzePricePatterns ar localTime (rs @ row # rs') fuelKey = analyzePricePatterns ar localTime (rs @ rs') fuelKey) \<and>
   (\<forall>j<length labels. reportedAt sd (key fuel) (labels ! j) = Some 0 \<longrightarrow>
      dataPoints (buildDataset labels sd index fuel) ! j = None)"
proof (intro conjI impI allI)
  assume "latest fuelKey sd = Some 0"
  then show "findCheapest (xs @ sd # ys) fuelKey = findCheapest (xs @ ys) fuelKey"
    by (rule findCheapest_skip)
next
  assume "price row fuelKey = Some 0"
  then have "\<not> truthy (price row fuelKey)" by (simp add: truthy_def)
  then show "analyzePricePatterns ar localTime (rs @ row # rs') fuelKey = analyzePricePatterns ar localTime (rs @ rs') fuelKey"
    by (simp add: analyzePricePatterns_def accumulate_skip)
next
  fix j
  assume "j < length labels" "reportedAt sd (key fuel) (labels ! j) = Some 0"
  then show "dataPoints (buildDataset labels sd index fuel) ! j = None"
    by (simp add: buildDataset_def priceMap_reportedAt)
qed

text \<open>
  Station X at 0: the cheapest is that of the other stations alone, a series of one
  point at 0 is analysed like the empty series, and X's diesel line has a gap there.
\<close>

theorem zero_price_is_absent_witness:
  "findCheapest [\<lparr>station = stationX, data = [dieselRow ''2024-05-01T08:00:00'' (Some 0)]\<rparr>, exampleData ! 1] PriceDiesel
     = findCheapest [exampleData ! 1] PriceDiesel \<and>
   analyzePricePatterns doubleArith exampleLocalTime [dieselRow ''2024-05-01T08:00:00'' (Some 0)] PriceDiesel
     = analyzePricePatterns doubleArith exampleLocalTime [] PriceDiesel \<and>
   dataPoints (buildDataset [''2024-05-01T08:00:00'']
                 \<lparr>station = stationX, data = [dieselRow ''2024-05-01T08:00:00'' (Some 0)]\<rparr> 0 (FUEL_TYPE_CONFIG ! 0)) ! 0
     = None"
  using zero_price_is_absent[where fuelKey = PriceDiesel
          and sd = "\<lparr>station = stationX, data = [dieselRow ''2024-05-01T08:00:00'' (Some 0)]\<rparr>"
          and xs = "[]" and ys = "[exampleData ! 1]" and row = "dieselRow ''2024-05-01T08:00:00'' (Some 0)"
          and ar = doubleArith
          and localTime = exampleLocalTime and rs = "[]" and rs' = "[]"
          and labels = "[''2024-05-01T08:00:00'']" and fuel = "FUEL_TYPE_CONFIG ! 0" and index = 0]
  by (simp add: latest_def dieselRow_def reportedAt_def FUEL_TYPE_CONFIG_def)

section \<open>Buy/wait advice\<close>

text \<open>
  In a sorted list the element at index \<open>n div 2\<close> has more than half of the list at or
  below it and at least half at or above it.
\<close>

lemma sorted_median:
  fixes s :: "real list"
  assumes "sorted s" and "s \<noteq> []"
  shows "length s \<le> 2 * length (filter (\<lambda>v. v \<le> s ! (length s div 2)) s)"
    and "length s \<le> 2 * length (filter (\<lambda>v. s ! (length s div 2) \<le> v) s)"
proof -
  let ?k = "length s div 2"
  have k: "?k < length s" using assms(2) by simp
  have low: "\<forall>v\<in>set (take (Suc ?k) s). v \<le> s ! ?k"
    using assms(1) k by (auto simp: in_set_conv_nth sorted_nth_mono)
  have high: "\<forall>v\<in>set (drop ?k s). s ! ?k \<le> v"
    using assms(1) k by (auto simp: in_set_conv_nth sorted_nth_mono)
  have "filter (\<lambda>v. v \<le> s ! ?k) s
        = filter (\<lambda>v. v \<le> s ! ?k) (take (Suc ?k) s) @ filter (\<lambda>v. v \<le> s ! ?k) (drop (Suc ?k) s)"
    by (simp only: filter_append[symmetric] append_take_drop_id)
  also have "filter (\<lambda>v. v \<le> s ! ?k) (take (Suc ?k) s) = take (Suc ?k) s"
    using low by (simp add: filter_id_conv)
  finally have "Suc ?k \<le> length (filter (\<lambda>v. v \<le> s ! ?k) s)" using k by simp
  then show "length s \<le> 2 * length (filter (\<lambda>v. v \<le> s ! ?k) s)" by arith
  have "filter (\<lambda>v. s ! ?k \<le> v) s
        = filter (\<lambda>v. s ! ?k \<le> v) (take ?k s) @ filter (\<lambda>v. s ! ?k \<le> v) (drop ?k s)"
    by (simp only: filter_append[symmetric] append_take_drop_id)
  also have "filter (\<lambda>v. s ! ?k \<le> v) (drop ?k s) = drop ?k s"
    using high by (simp add: filter_id_conv)
  finally have "length s - ?k \<le> length (filter (\<lambda>v. s ! ?k \<le> v) s)" by simp
  then show "length s \<le> 2 * length (filter (\<lambda>v. s ! ?k \<le> v) s)" by arith
qed

lemma sort_median:
  fixes vs :: "real list"
  assumes "vs \<noteq> []"
  shows "isMedian (sort vs ! (length vs div 2)) vs"
proof -
  let ?s = "sort vs"
  have "length ?s = length vs" by simp
  then have s: "sorted ?s" "?s \<noteq> []" "length ?s = length vs" using assms by (simp, fastforce, simp)
  have cnt: "length (filter P ?s) = length (filter P vs)" for P
    by (simp add: filter_sort)
  have "?s ! (length vs div 2) \<in> set ?s" using assms by (intro nth_mem) simp
  then have mem: "?s ! (length vs div 2) \<in> set vs" by simp
  show ?thesis
    unfolding isMedian_def
    using sorted_median[OF s(1,2)] mem by (simp add: cnt)
qed

lemma pricesOf_map:
  "pricesOf rows fuelKey = map the (filter (\<lambda>v. v \<noteq> None) (map (\<lambda>r. rowValue r fuelKey) rows))"
  by (induction rows) (auto simp: pricesOf_def nonNull_def)

lemma length_pricesOf: "length (pricesOf rows fuelKey) = length (nonNull rows fuelKey)"
  by (simp add: pricesOf_def)

text \<open>
  The statistics of three or more values, the loop under the platform's hour
  extraction, and the median that a returned advice carries.
\<close>

lemma statistics_few:
  "length (nonNull rows fuelKey) < 3 \<Longrightarrow> statistics ar rows fuelKey = None"
  by (simp add: statistics_def Let_def)

lemma statistics_median:
  assumes "3 \<le> length (nonNull rows fuelKey)"
  shows "\<exists>s. statistics ar rows fuelKey = Some s \<and>
           lastPoint s = last (nonNull rows fuelKey) \<and>
           median s = sort (pricesOf rows fuelKey) ! (length (pricesOf rows fuelKey) div 2)"
proof -
  have ne: "nonNull rows fuelKey \<noteq> []" using assms by auto
  show ?thesis
    using assms ne by (simp add: statistics_def Let_def pricesOf_def last_conv_nth)
qed

lemma perHourLoop_deHour:
  "perHourLoop ar (deHour valid) (x # xs) perHour = (if valid (fst x) then Inl TypeError else Inl RangeError)"
  by (cases x) (simp add: deHour_def)

lemma computeAdvice_median:
  assumes "statistics ar rows fuelKey = Some s"
  shows "(\<exists>e. computeAdvice ar berlinHour curHour rows fuelKey = Inl e) \<or>
         (\<exists>a. computeAdvice ar berlinHour curHour rows fuelKey = Inr (Some a) \<and> median a = median s)"
proof (cases "perHourLoop ar berlinHour (nonNull rows fuelKey) (replicate 24 (Num 0, 0))")
  case (Inl e)
  then show ?thesis using assms by (simp add: computeAdvice_def)
next
  case (Inr perHour)
  then show ?thesis using assms by (simp add: computeAdvice_def Let_def)
qed

text \<open>
  Claim C2. With fewer than 3 non-null points \<^verbatim>\<open>computeAdvice\<close> returns
  \<^verbatim>\<open>null\<close>, as the claim says. With 3 or more the claim promises a result and a
  decision (for 1.80, 1.82, 1.79, 1.85, 1.78 a result with median 1.80); the program gives
  none: the hour of the first point is NaN, so the first turn of the loop throws a
  TypeError (a RangeError when the timestamp of that point is no date), whatever the
  values, the current hour and the arithmetic are.
\<close>

theorem computeAdvice_german_hour:
  "computeAdvice ar (deHour valid) curHour rows fuelKey =
     (if length (nonNull rows fuelKey) < 3 then Inr None
      else if valid (fst (hd (nonNull rows fuelKey))) then Inl TypeError else Inl RangeError)"
proof (cases "length (nonNull rows fuelKey) < 3")
  case True
  then show ?thesis by (simp add: computeAdvice_def statistics_few)
next
  case False
  then have n: "3 \<le> length (nonNull rows fuelKey)" by simp
  then obtain s where s: "statistics ar rows fuelKey = Some s" using statistics_median by blast
  obtain x xs where v: "nonNull rows fuelKey = x # xs" using n by (cases "nonNull rows fuelKey") auto
  have "perHourLoop ar (deHour valid) (nonNull rows fuelKey) (replicate 24 (Num 0, 0)) =
          (if valid (fst x) then Inl TypeError else Inl RangeError)"
    unfolding v by (rule perHourLoop_deHour)
  then show ?thesis using False s v by (simp add: computeAdvice_def)
qed

text \<open>
  Claim C10. With fewer than three non-null values \<^verbatim>\<open>computeAdvice\<close> returns
  \<^verbatim>\<open>null\<close> before it computes a median. For three or more, the median that it
  computes (lines 150-151) is the element at index \<open>floor(n/2)\<close> of the values sorted
  ascending, and it is a median of the values. For even \<open>n\<close> this is the upper of the two
  middle elements (at \<open>n/2 - 1\<close> and \<open>n/2\<close>), and it lies strictly above their arithmetic
  mean whenever the two differ; for odd \<open>n\<close> it is the middle element (\<open>n = 2 floor(n/2) + 1\<close>).
  Whatever the hour extraction and the arithmetic, the function then either throws or
  returns an advice that carries this median.
\<close>

theorem computeAdvice_median_upper_middle:
  "(length (pricesOf rows fuelKey) < 3 \<longrightarrow>
      statistics ar rows fuelKey = None \<and> computeAdvice ar berlinHour curHour rows fuelKey = Inr None) \<and>
   (3 \<le> length (pricesOf rows fuelKey) \<longrightarrow>
     (\<exists>s. statistics ar rows fuelKey = Some s \<and>
        median s = sort (pricesOf rows fuelKey) ! (length (pricesOf rows fuelKey) div 2) \<and>
        isMedian (median s) (pricesOf rows fuelKey) \<and>
        (even (length (pricesOf rows fuelKey)) \<longrightarrow>
           median s = max (sort (pricesOf rows fuelKey) ! (length (pricesOf rows fuelKey) div 2 - 1))
                          (sort (pricesOf rows fuelKey) ! (length (pricesOf rows fuelKey) div 2)) \<and>
           (sort (pricesOf rows fuelKey) ! (length (pricesOf rows fuelKey) div 2 - 1)
              < sort (pricesOf rows fuelKey) ! (length (pricesOf rows fuelKey) div 2) \<longrightarrow>
            (sort (pricesOf rows fuelKey) ! (length (pricesOf rows fuelKey) div 2 - 1)
              + sort (pricesOf rows fuelKey) ! (length (pricesOf rows fuelKey) div 2)) / 2 < median s)) \<and>
        (odd (length (pricesOf rows fuelKey)) \<longrightarrow>
           length (pricesOf rows fuelKey) = 2 * (length (pricesOf rows fuelKey) div 2) + 1) \<and>
        ((\<exists>e. computeAdvice ar berlinHour curHour rows fuelKey = Inl e) \<or>
         (\<exists>a. computeAdvice ar berlinHour curHour rows fuelKey = Inr (Some a) \<and> median a = median s))))"
proof (intro conjI impI)
  assume "length (pricesOf rows fuelKey) < 3"
  then have "length (nonNull rows fuelKey) < 3" by (simp add: length_pricesOf)
  then show "statistics ar rows fuelKey = None" by (rule statistics_few)
  then show "computeAdvice ar berlinHour curHour rows fuelKey = Inr None" by (simp add: computeAdvice_def)
next
  assume h: "3 \<le> length (pricesOf rows fuelKey)"
  let ?vs = "pricesOf rows fuelKey"
  let ?s = "sort ?vs"
  let ?k = "length ?vs div 2"
  have n: "3 \<le> length (nonNull rows fuelKey)" using h by (simp add: length_pricesOf)
  obtain s where run: "statistics ar rows fuelKey = Some s" and med: "median s = ?s ! ?k"
    using statistics_median[OF n] by blast
  have ne: "?vs \<noteq> []" using h by auto
  have ism: "isMedian (median s) ?vs" unfolding med by (rule sort_median[OF ne])
  have "?s ! (?k - 1) \<le> ?s ! ?k"
    using h by (intro sorted_nth_mono) simp_all
  then have upper: "median s = max (?s ! (?k - 1)) (?s ! ?k)" unfolding med by simp
  have strict: "(?s ! (?k - 1) + ?s ! ?k) / 2 < median s" if "?s ! (?k - 1) < ?s ! ?k"
    unfolding med using that by simp
  have middle: "length ?vs = 2 * ?k + 1" if "odd (length ?vs)"
    using that by presburger
  have link: "(\<exists>e. computeAdvice ar berlinHour curHour rows fuelKey = Inl e) \<or>
         (\<exists>a. computeAdvice ar berlinHour curHour rows fuelKey = Inr (Some a) \<and> median a = median s)"
    by (rule computeAdvice_median[OF run])
  show "\<exists>s. statistics ar rows fuelKey = Some s \<and>
        median s = ?s ! ?k \<and>
        isMedian (median s) ?vs \<and>
        (even (length ?vs) \<longrightarrow>
           median s = max (?s ! (?k - 1)) (?s ! ?k) \<and>
           (?s ! (?k - 1) < ?s ! ?k \<longrightarrow> (?s ! (?k - 1) + ?s ! ?k) / 2 < median s)) \<and>
        (odd (length ?vs) \<longrightarrow> length ?vs = 2 * ?k + 1) \<and>
        ((\<exists>e. computeAdvice ar berlinHour curHour rows fuelKey = Inl e) \<or>
         (\<exists>a. computeAdvice ar berlinHour curHour rows fuelKey = Inr (Some a) \<and> median a = median s))"
    using run med ism upper strict middle link by (intro exI[of _ s]) blast
qed

text \<open>
  The values 3, 1, 1, 3: the median is 3, not 2; on the platform the function then
  throws. The values 3, 1: \<^verbatim>\<open>null\<close>.
\<close>

theorem computeAdvice_median_upper_middle_witness:
  "map_option median (statistics doubleArith [dieselAt 3, dieselAt 1, dieselAt 1, dieselAt 3] Diesel) = Some 3 \<and>
   computeAdvice doubleArith (deHour (\<lambda>t. True)) (Some 10) [dieselAt 3, dieselAt 1, dieselAt 1, dieselAt 3] Diesel
     = Inl TypeError \<and>
   computeAdvice doubleArith (deHour (\<lambda>t. True)) (Some 10) [dieselAt 3, dieselAt 1] Diesel = Inr None"
proof -
  let ?rows = "[dieselAt 3, dieselAt 1, dieselAt 1, dieselAt 3]"
  have n: "nonNull ?rows Diesel =
           [(''2024-05-01T07:00:00Z'', 3), (''2024-05-01T07:00:00Z'', 1), (''2024-05-01T07:00:00Z'', 1), (''2024-05-01T07:00:00Z'', 3)]"
    by (simp add: nonNull_def dieselAt_def)
  have v: "pricesOf ?rows Diesel = [3, 1, 1, 3]" by (simp add: pricesOf_def n)
  have "3 \<le> length (pricesOf ?rows Diesel)" by (simp add: v)
  then obtain s where s: "statistics doubleArith ?rows Diesel = Some s"
    and m: "median s = sort (pricesOf ?rows Diesel) ! (length (pricesOf ?rows Diesel) div 2)"
    using computeAdvice_median_upper_middle[of ?rows Diesel doubleArith "deHour (\<lambda>t. True)" "Some 10"] by blast
  have "sort [3, 1, 1, 3 :: real] ! (length [3, 1, 1, 3 :: real] div 2) = 3" by simp
  then have "median s = 3" using m unfolding v by simp
  moreover have "computeAdvice doubleArith (deHour (\<lambda>t. True)) (Some 10) ?rows Diesel = Inl TypeError"
    using s by (simp add: computeAdvice_def n deHour_def)
  moreover have "computeAdvice doubleArith (deHour (\<lambda>t. True)) (Some 10) [dieselAt 3, dieselAt 1] Diesel = Inr None"
    using computeAdvice_median_upper_middle[of "[dieselAt 3, dieselAt 1]" Diesel doubleArith
            "deHour (\<lambda>t. True)" "Some 10"]
    by (simp add: pricesOf_def nonNull_def dieselAt_def)
  ultimately show ?thesis using s by simp
qed

end
